theory Spec2Isabelle
  imports Main "HOL-Library.Sublist" "HOL-Library.AList" "HOL-Library.Monad_Syntax"
begin

section \<open>The DashScope CORS proxy: SimpleProxyHandler and CORSProxyHandler\<close>

text \<open>
  The repository holds two request handlers built on Python's
  \<^verbatim>\<open>http.server.BaseHTTPRequestHandler\<close>: \<^verbatim>\<open>SimpleProxyHandler\<close>
  (\<^verbatim>\<open>muse_plus/simple_proxy.py\<close>, outbound calls through \<^verbatim>\<open>requests\<close>) and
  \<^verbatim>\<open>CORSProxyHandler\<close> (\<^verbatim>\<open>proxy_server.py\<close>, outbound calls through
  \<^verbatim>\<open>urllib.request\<close>). A handler is modelled as a function from the parsed request
  to the list of effects it performs, in order: what it sends to the caller, what it reads
  from the caller, and what it asks of the upstream. Log output (\<^verbatim>\<open>print\<close>) is left out.

  Strings are Python \<^verbatim>\<open>str\<close> values over Latin-1 (the decoding \<^verbatim>\<open>http.server\<close>
  applies to the request line and the headers) and Python \<^verbatim>\<open>bytes\<close>; both are
  lists of 8-bit characters.
\<close>

type_synonym bytes = string
type_synonym header = "string \<times> string"

subsection \<open>Python string operations\<close>

text \<open>\<^verbatim>\<open>str.lower\<close> on Latin-1: the letters A-Z and the accented capitals
  0xC0-0xDE (without the multiplication sign 0xD7) move up by 32.\<close>

definition py_lower_char :: "char \<Rightarrow> char" where
  "py_lower_char c =
     (let n = (of_char c :: nat)
      in if (65 \<le> n \<and> n \<le> 90) \<or> (192 \<le> n \<and> n \<le> 222 \<and> n \<noteq> 215)
         then char_of (n + 32) else c)"

definition lower :: "string \<Rightarrow> string" where
  "lower s = map py_lower_char s"

text \<open>The first character of \<^verbatim>\<open>str.capitalize\<close>. Header names, the only strings
  capitalised here, are printable ASCII (the header parser of the library accepts no other
  name); the three Latin-1 letters whose capital lies outside Latin-1 are left as they are.\<close>

definition py_upper_char :: "char \<Rightarrow> char" where
  "py_upper_char c =
     (let n = (of_char c :: nat)
      in if (97 \<le> n \<and> n \<le> 122) \<or> (224 \<le> n \<and> n \<le> 254 \<and> n \<noteq> 247)
         then char_of (n - 32) else c)"

fun capitalize :: "string \<Rightarrow> string" where
  "capitalize [] = []"
| "capitalize (c # cs) = py_upper_char c # lower cs"

text \<open>\<^verbatim>\<open>s.startswith(p)\<close>.\<close>

definition startswith :: "string \<Rightarrow> string \<Rightarrow> bool" where
  "startswith s p = prefix p s"

text \<open>\<^verbatim>\<open>s.replace(old, new)\<close>: every non-overlapping occurrence of \<^verbatim>\<open>old\<close>,
  found from left to right, is replaced. The scan is \<open>replace_scan\<close>; an empty
  \<^verbatim>\<open>old\<close> matches before every character and at the end.\<close>

function replace_scan :: "string \<Rightarrow> string \<Rightarrow> string \<Rightarrow> string" where
  "replace_scan old new [] = []"
| "replace_scan old new (c # cs) =
     (if old \<noteq> [] \<and> prefix old (c # cs)
      then new @ replace_scan old new (drop (length old) (c # cs))
      else c # replace_scan old new cs)"
  by pat_completeness auto
termination
  by (relation "measure (\<lambda>(old, new, s). length s)") auto

definition replace :: "string \<Rightarrow> string \<Rightarrow> string \<Rightarrow> string" where
  "replace s old new =
     (if old = [] then new @ concat (map (\<lambda>c. c # new) s) else replace_scan old new s)"

text \<open>\<^verbatim>\<open>str(n)\<close> for a non-negative integer.\<close>

definition digit_char :: "nat \<Rightarrow> char" where
  "digit_char d = ''0123456789'' ! d"

function str_nat :: "nat \<Rightarrow> string" where
  "str_nat n = (if n < 10 then [digit_char n] else str_nat (n div 10) @ [digit_char (n mod 10)])"
  by pat_completeness auto
termination
  by (relation "measure id") auto

text \<open>\<^verbatim>\<open>s.encode('UTF-8')\<close> for a Latin-1 string: a character from 0x80 on takes
  two bytes.\<close>

definition utf8_char :: "char \<Rightarrow> bytes" where
  "utf8_char c =
     (let n = (of_char c :: nat)
      in if n < 128 then [c] else [char_of (192 + n div 64), char_of (128 + n mod 64)])"

definition encode :: "string \<Rightarrow> bytes" where
  "encode s = concat (map utf8_char s)"

text \<open>\<^verbatim>\<open>html.escape(s, quote=False)\<close>.\<close>

definition html_escape :: "string \<Rightarrow> string" where
  "html_escape s = replace (replace (replace s ''&'' ''&amp;'') ''<'' ''&lt;'') ''>'' ''&gt;''"

subsection \<open>Requests, effects and the environment of a handler\<close>

text \<open>The parsed request a handler sees: \<^verbatim>\<open>self.command\<close>, \<^verbatim>\<open>self.path\<close>,
  \<^verbatim>\<open>self.headers.items()\<close> (all header lines in arrival order, repeated names
  included) and the bytes the caller sends after the header block (\<^verbatim>\<open>self.rfile\<close>).\<close>

record request =
  command :: string
  path :: string
  headers :: "header list"
  rfile :: bytes

text \<open>The arguments of \<^verbatim>\<open>requests.post\<close> (\<^verbatim>\<open>verify=False\<close> and
  \<^verbatim>\<open>timeout=30\<close> are constants of the call). The header dictionary is an association list
  in insertion order.\<close>

record post_args =
  url :: string
  data :: bytes
  post_headers :: "header list"
  stream :: bool

text \<open>What the handler uses of a \<^verbatim>\<open>requests.Response\<close>: \<^verbatim>\<open>iter_content\<close> is the list
  of chunks the iterator yields, \<^verbatim>\<open>iter_error\<close> the exception it raises after them, if
  any.\<close>

record requests_response =
  status_code :: nat
  resp_headers :: "header list"
  content :: bytes
  iter_content :: "bytes list"
  iter_error :: "bytes option"

text \<open>An exception is carried as the UTF-8 encoding of \<^verbatim>\<open>str(e)\<close>.\<close>

datatype requests_result =
    RequestException bytes
  | PostException bytes
  | Response requests_response

text \<open>The \<^verbatim>\<open>urllib.request.Request\<close> built by CORSProxyHandler (its method is always
  POST) and what \<^verbatim>\<open>urlopen\<close> does with it: an \<^verbatim>\<open>HTTPError\<close> carries its code, its
  reason and the result of \<^verbatim>\<open>e.read()\<close> (\<open>None\<close> when the read raises).\<close>

record urllib_request =
  full_url :: string
  req_data :: bytes
  req_headers :: "header list"

record urllib_response =
  getcode :: nat
  info_headers :: "header list"
  read :: bytes

datatype urlopen_result =
    HTTPError nat bytes "bytes option"
  | UrlopenException bytes
  | UrlopenResponse urllib_response

text \<open>The effects of a handler, in the order they happen. \<open>Status\<close>, \<open>Header\<close> and
  \<open>EndHeaders\<close> are the status line and the header block on the way to the caller,
  \<open>Write\<close> and \<open>Flush\<close> the calls on \<^verbatim>\<open>self.wfile\<close>, \<open>ReadBody\<close> the call
  \<^verbatim>\<open>self.rfile.read(n)\<close>, \<open>RequestsPost\<close> and \<open>Urlopen\<close> the calls to the upstream, and
  \<open>NextChunk\<close> a chunk taken from \<^verbatim>\<open>response.iter_content\<close>.\<close>

datatype event =
    Status nat
  | Header string string
  | EndHeaders
  | Write bytes
  | Flush
  | ReadBody nat
  | RequestsPost post_args
  | NextChunk bytes
  | Urlopen urllib_request

text \<open>What a handler takes from its surroundings: the two strings \<^verbatim>\<open>send_response\<close> puts
  into the Server and Date headers, the built-ins \<^verbatim>\<open>int\<close> (on the text of a header;
  \<open>Inl\<close> is the message of the ValueError) and \<^verbatim>\<open>repr\<close>, and the behaviour of the
  upstream as seen through each client library.\<close>

record env =
  version_string :: string
  date_time_string :: string
  py_int :: "string \<Rightarrow> bytes + int"
  py_repr :: "string \<Rightarrow> string"
  requests_post :: "post_args \<Rightarrow> requests_result"
  urlopen :: "urllib_request \<Rightarrow> urlopen_result"

subsection \<open>The base class: \<^verbatim>\<open>http.server.BaseHTTPRequestHandler\<close>\<close>

text \<open>\<^verbatim>\<open>self.headers.get(name)\<close>: the first header whose name matches without regard to
  case.\<close>

fun headers_get :: "header list \<Rightarrow> string \<Rightarrow> string option" where
  "headers_get [] name = None"
| "headers_get ((k, v) # rest) name =
     (if lower k = lower name then Some v else headers_get rest name)"

definition send_response :: "env \<Rightarrow> nat \<Rightarrow> event list" where
  "send_response E code =
     [Status code, Header ''Server'' (version_string E), Header ''Date'' (date_time_string E)]"

definition send_header :: "string \<Rightarrow> string \<Rightarrow> event list" where
  "send_header keyword val = [Header keyword val]"

definition end_headers :: "event list" where
  "end_headers = [EndHeaders]"

text \<open>The long explanations of \<^verbatim>\<open>self.responses\<close> for the two codes that reach
  \<^verbatim>\<open>send_error\<close> here; a code without an entry gets \<^verbatim>\<open>???\<close>.\<close>

definition explain_of :: "nat \<Rightarrow> string" where
  "explain_of code =
     (if code = 404 then ''Nothing matches the given URI''
      else if code = 501 then ''Server does not support this operation''
      else ''???'')"

definition NL :: string where
  "NL = [CHR 0x0A]"

text \<open>\<^verbatim>\<open>DEFAULT_ERROR_MESSAGE\<close> of Python 3.11, filled in with the code, the escaped message
  and the escaped explanation.\<close>

definition error_message_format :: "nat \<Rightarrow> string \<Rightarrow> string \<Rightarrow> string" where
  \<open>error_message_format code message explain =
     ''<!DOCTYPE HTML>'' @ NL @
     ''<html lang="en">'' @ NL @
     ''    <head>'' @ NL @
     ''        <meta charset="utf-8">'' @ NL @
     ''        <title>Error response</title>'' @ NL @
     ''    </head>'' @ NL @
     ''    <body>'' @ NL @
     ''        <h1>Error response</h1>'' @ NL @
     ''        <p>Error code: '' @ str_nat code @ ''</p>'' @ NL @
     ''        <p>Message: '' @ message @ ''.</p>'' @ NL @
     ''        <p>Error code explanation: '' @ str_nat code @ '' - '' @ explain @ ''.</p>'' @ NL @
     ''    </body>'' @ NL @
     ''</html>'' @ NL\<close>

definition error_page :: "nat \<Rightarrow> string \<Rightarrow> bytes option" where
  "error_page code message =
     (if code \<ge> 200 \<and> code \<notin> {204, 205, 304}
      then Some (encode (error_message_format code (html_escape message)
                           (html_escape (explain_of code))))
      else None)"

definition send_error :: "env \<Rightarrow> request \<Rightarrow> nat \<Rightarrow> string \<Rightarrow> event list" where
  "send_error E r code message =
     send_response E code @
     send_header ''Connection'' ''close'' @
     (case error_page code message of
        None \<Rightarrow> []
      | Some body \<Rightarrow>
          send_header ''Content-Type'' ''text/html;charset=utf-8'' @
          send_header ''Content-Length'' (str_nat (length body))) @
     end_headers @
     (case error_page code message of
        None \<Rightarrow> []
      | Some body \<Rightarrow> if command r \<noteq> ''HEAD'' \<and> body \<noteq> [] then [Write body] else [])"

subsection \<open>What both handlers share\<close>

text \<open>The header names neither handler forwards to the upstream.\<close>

definition request_denylist :: "string list" where
  "request_denylist = [''host'', ''origin'', ''referer'', ''content-length'']"

text \<open>\<^verbatim>\<open>target_path = self.path.replace('/api/dashscope', '')\<close> and the f-string that
  builds \<^verbatim>\<open>target_url\<close>.\<close>

definition target_path :: "string \<Rightarrow> string" where
  "target_path p = replace p ''/api/dashscope'' []"

definition target_url :: "string \<Rightarrow> string" where
  "target_url p = ''https://dashscope.aliyuncs.com'' @ target_path p"

text \<open>\<^verbatim>\<open>int(self.headers.get('Content-Length', 0))\<close>: without the header the default
  \<^verbatim>\<open>0\<close> is converted, which cannot fail.\<close>

definition content_length :: "env \<Rightarrow> request \<Rightarrow> bytes + int" where
  "content_length E r =
     (case headers_get (headers r) ''Content-Length'' of
        None \<Rightarrow> Inr 0
      | Some v \<Rightarrow> py_int E v)"

text \<open>\<^verbatim>\<open>self.rfile.read(content_length) if content_length > 0 else b''\<close>: the bytes
  read and the effect of reading them. A length of \<open>2 ^ 63\<close> or more, at which the read
  itself raises OverflowError on CPython, is outside the model.\<close>

definition post_data :: "request \<Rightarrow> int \<Rightarrow> bytes" where
  "post_data r n = (if n > 0 then take (nat n) (rfile r) else [])"

definition read_post_data :: "int \<Rightarrow> event list" where
  "read_post_data n = (if n > 0 then [ReadBody (nat n)] else [])"

subsection \<open>SimpleProxyHandler (\<^verbatim>\<open>muse_plus/simple_proxy.py\<close>)\<close>

definition Simple_send_cors_headers :: "event list" where
  "Simple_send_cors_headers =
     send_header ''Access-Control-Allow-Origin'' ''*'' @
     send_header ''Access-Control-Allow-Methods'' ''GET, POST, PUT, DELETE, OPTIONS'' @
     send_header ''Access-Control-Allow-Headers'' ''Content-Type, Authorization, X-DashScope-SSE'' @
     send_header ''Access-Control-Max-Age'' ''86400''"

definition Simple_do_OPTIONS :: "env \<Rightarrow> event list" where
  "Simple_do_OPTIONS E = send_response E 200 @ Simple_send_cors_headers @ end_headers"

text \<open>The loop over \<^verbatim>\<open>self.headers.items()\<close> that fills the dictionary
  \<^verbatim>\<open>headers\<close> and sets \<^verbatim>\<open>is_streaming\<close>. Assigning to a key the dictionary already
  holds replaces the value in place (\<open>AList.update\<close>).\<close>

fun Simple_headers_loop :: "header list \<Rightarrow> header list \<times> bool \<Rightarrow> header list \<times> bool" where
  "Simple_headers_loop [] (hs, is_streaming) = (hs, is_streaming)"
| "Simple_headers_loop ((header, val) # rest) (hs, is_streaming) =
     (if lower header \<notin> set request_denylist
      then Simple_headers_loop rest
             (AList.update header val hs,
              if lower header = ''x-dashscope-sse'' \<and> val = ''enable'' then True
              else is_streaming)
      else Simple_headers_loop rest (hs, is_streaming))"

text \<open>The headers of the upstream response that are not copied to the caller.\<close>

definition Simple_response_denylist :: "string list" where
  "Simple_response_denylist =
     [''access-control-allow-origin'', ''content-encoding'', ''transfer-encoding'']"

fun Simple_copy_headers :: "header list \<Rightarrow> event list" where
  "Simple_copy_headers [] = []"
| "Simple_copy_headers ((header, val) # rest) =
     (if lower header \<notin> set Simple_response_denylist
      then send_header header val @ Simple_copy_headers rest
      else Simple_copy_headers rest)"

text \<open>The streaming loop \<^verbatim>\<open>for chunk in response.iter_content(chunk_size=1024)\<close>: a
  non-empty chunk is written and flushed before the next one is asked for. The loop ends
  with the iterator or with the exception the iterator raises, which the inner
  \<^verbatim>\<open>except\<close> only logs; nothing more is sent in either case.\<close>

fun Simple_stream :: "bytes list \<Rightarrow> bytes option \<Rightarrow> event list" where
  "Simple_stream [] stream_error = []"
| "Simple_stream (chunk # rest) stream_error =
     NextChunk chunk #
     (if chunk \<noteq> [] then [Write chunk, Flush] else []) @
     Simple_stream rest stream_error"

text \<open>The two handlers of exceptions at the end of \<^verbatim>\<open>do_POST\<close>.\<close>

definition Simple_request_failed :: "env \<Rightarrow> bytes \<Rightarrow> event list" where
  \<open>Simple_request_failed E e =
     send_response E 500 @ Simple_send_cors_headers @
     send_header ''Content-Type'' ''application/json'' @ end_headers @
     [Write (''{"error": "Request failed: '' @ e @ ''"}'')]\<close>

definition Simple_proxy_error :: "env \<Rightarrow> bytes \<Rightarrow> event list" where
  \<open>Simple_proxy_error E e =
     send_response E 500 @ Simple_send_cors_headers @
     send_header ''Content-Type'' ''application/json'' @ end_headers @
     [Write (''{"error": "Proxy error: '' @ e @ ''"}'')]\<close>

definition Simple_relay :: "env \<Rightarrow> bool \<Rightarrow> requests_response \<Rightarrow> event list" where
  "Simple_relay E is_streaming response =
     send_response E (status_code response) @ Simple_send_cors_headers @
     Simple_copy_headers (resp_headers response) @ end_headers @
     (if is_streaming then Simple_stream (iter_content response) (iter_error response)
      else [Write (content response)])"

definition Simple_post_args :: "request \<Rightarrow> int \<Rightarrow> post_args" where
  "Simple_post_args r n =
     (let (hs, is_streaming) = Simple_headers_loop (headers r) ([], False)
      in \<lparr>url = target_url (path r), data = post_data r n, post_headers = hs,
          stream = is_streaming\<rparr>)"

definition Simple_do_POST :: "env \<Rightarrow> request \<Rightarrow> event list" where
  "Simple_do_POST E r =
     (if \<not> startswith (path r) ''/api/dashscope/'' then send_error E r 404 ''Not Found''
      else case content_length E r of
        Inl e \<Rightarrow> Simple_proxy_error E e
      | Inr n \<Rightarrow>
          read_post_data n @ [RequestsPost (Simple_post_args r n)] @
          (case requests_post E (Simple_post_args r n) of
             RequestException e \<Rightarrow> Simple_request_failed E e
           | PostException e \<Rightarrow> Simple_proxy_error E e
           | Response response \<Rightarrow>
               Simple_relay E (stream (Simple_post_args r n)) response))"

subsection \<open>CORSProxyHandler (\<^verbatim>\<open>proxy_server.py\<close>)\<close>

definition CORS_send_cors_headers :: "event list" where
  "CORS_send_cors_headers =
     send_header ''Access-Control-Allow-Origin'' ''*'' @
     send_header ''Access-Control-Allow-Methods'' ''GET, POST, PUT, DELETE, OPTIONS'' @
     send_header ''Access-Control-Allow-Headers'' ''Content-Type, Authorization'' @
     send_header ''Access-Control-Max-Age'' ''86400''"

definition CORS_do_OPTIONS :: "env \<Rightarrow> event list" where
  "CORS_do_OPTIONS E = send_response E 200 @ CORS_send_cors_headers @ end_headers"

text \<open>\<^verbatim>\<open>Request.add_header\<close> of urllib stores the value under the capitalised name:
  \<^verbatim>\<open>self.headers[key.capitalize()] = val\<close>.\<close>

definition add_header :: "string \<Rightarrow> string \<Rightarrow> urllib_request \<Rightarrow> urllib_request" where
  "add_header key val req =
     req\<lparr>req_headers := AList.update (capitalize key) val (req_headers req)\<rparr>"

fun CORS_headers_loop :: "header list \<Rightarrow> urllib_request \<Rightarrow> urllib_request" where
  "CORS_headers_loop [] req = req"
| "CORS_headers_loop ((header, val) # rest) req =
     (if lower header \<notin> set request_denylist
      then CORS_headers_loop rest (add_header header val req)
      else CORS_headers_loop rest req)"

definition CORS_request :: "request \<Rightarrow> int \<Rightarrow> urllib_request" where
  "CORS_request r n =
     CORS_headers_loop (headers r)
       \<lparr>full_url = target_url (path r), req_data = post_data r n, req_headers = []\<rparr>"

fun CORS_copy_headers :: "header list \<Rightarrow> event list" where
  "CORS_copy_headers [] = []"
| "CORS_copy_headers ((header, val) # rest) =
     (if lower header \<notin> set [''access-control-allow-origin'']
      then send_header header val @ CORS_copy_headers rest
      else CORS_copy_headers rest)"

definition CORS_relay :: "env \<Rightarrow> urllib_response \<Rightarrow> event list" where
  "CORS_relay E response =
     send_response E (getcode response) @ CORS_send_cors_headers @
     CORS_copy_headers (info_headers response) @ end_headers @
     [Write (read response)]"

definition CORS_http_error :: "env \<Rightarrow> nat \<Rightarrow> bytes \<Rightarrow> bytes option \<Rightarrow> event list" where
  \<open>CORS_http_error E code reason error_read =
     send_response E code @ CORS_send_cors_headers @ end_headers @
     (case error_read of
        Some error_body \<Rightarrow> [Write error_body]
      | None \<Rightarrow> [Write (''{"error": "HTTP '' @ str_nat code @ '': '' @ reason @ ''"}'')])\<close>

definition CORS_proxy_error :: "env \<Rightarrow> bytes \<Rightarrow> event list" where
  \<open>CORS_proxy_error E e =
     send_response E 500 @ CORS_send_cors_headers @
     send_header ''Content-Type'' ''application/json'' @ end_headers @
     [Write (''{"error": "Proxy error: '' @ e @ ''"}'')]\<close>

definition CORS_do_POST :: "env \<Rightarrow> request \<Rightarrow> event list" where
  "CORS_do_POST E r =
     (if \<not> startswith (path r) ''/api/dashscope/'' then send_error E r 404 ''Not Found''
      else case content_length E r of
        Inl e \<Rightarrow> CORS_proxy_error E e
      | Inr n \<Rightarrow>
          read_post_data n @ [Urlopen (CORS_request r n)] @
          (case urlopen E (CORS_request r n) of
             HTTPError code reason error_read \<Rightarrow> CORS_http_error E code reason error_read
           | UrlopenException e \<Rightarrow> CORS_proxy_error E e
           | UrlopenResponse response \<Rightarrow> CORS_relay E response))"

subsection \<open>Dispatch\<close>

text \<open>\<^verbatim>\<open>handle_one_request\<close> of the base class calls \<^verbatim>\<open>do_\<close> followed by the command
  when the handler class has such a method, and flushes \<^verbatim>\<open>wfile\<close> after it; both classes
  define \<^verbatim>\<open>do_OPTIONS\<close> and \<^verbatim>\<open>do_POST\<close> only. Any other command is answered by the
  base class itself. The request is one the base class has parsed without error; a request
  line without a protocol version, which the base class takes for GET only and answers
  without status line and headers, and the interim answer to an
  \<^verbatim>\<open>Expect: 100-continue\<close> header are outside the model.\<close>

datatype handler = SimpleProxyHandler | CORSProxyHandler

fun do_OPTIONS :: "handler \<Rightarrow> env \<Rightarrow> event list" where
  "do_OPTIONS SimpleProxyHandler E = Simple_do_OPTIONS E"
| "do_OPTIONS CORSProxyHandler E = CORS_do_OPTIONS E"

fun do_POST :: "handler \<Rightarrow> env \<Rightarrow> request \<Rightarrow> event list" where
  "do_POST SimpleProxyHandler E r = Simple_do_POST E r"
| "do_POST CORSProxyHandler E r = CORS_do_POST E r"

fun send_cors_headers :: "handler \<Rightarrow> event list" where
  "send_cors_headers SimpleProxyHandler = Simple_send_cors_headers"
| "send_cors_headers CORSProxyHandler = CORS_send_cors_headers"

definition handle_one_request :: "handler \<Rightarrow> env \<Rightarrow> request \<Rightarrow> event list" where
  "handle_one_request h E r =
     (if command r = ''OPTIONS'' then do_OPTIONS h E @ [Flush]
      else if command r = ''POST'' then do_POST h E r @ [Flush]
      else send_error E r 501 (''Unsupported method ('' @ py_repr E (command r) @ '')''))"

subsection \<open>What the caller and the upstream observe\<close>

text \<open>The response as the caller receives it: the status line, the header block, the
  writes to \<^verbatim>\<open>wfile\<close> one by one, and the body they add up to.\<close>

fun the_status :: "event \<Rightarrow> nat list" where
  "the_status (Status c) = [c]"
| "the_status _ = []"

fun the_header :: "event \<Rightarrow> header list" where
  "the_header (Header k v) = [(k, v)]"
| "the_header _ = []"

fun the_write :: "event \<Rightarrow> bytes list" where
  "the_write (Write b) = [b]"
| "the_write _ = []"

definition response_status :: "event list \<Rightarrow> nat list" where
  "response_status t = concat (map the_status t)"

definition response_headers :: "event list \<Rightarrow> header list" where
  "response_headers t = concat (map the_header t)"

definition response_writes :: "event list \<Rightarrow> bytes list" where
  "response_writes t = concat (map the_write t)"

definition response_body :: "event list \<Rightarrow> bytes" where
  "response_body t = concat (response_writes t)"

text \<open>Contact with the upstream and reads of the request body.\<close>

fun is_upstream :: "event \<Rightarrow> bool" where
  "is_upstream (RequestsPost a) = True"
| "is_upstream (Urlopen q) = True"
| "is_upstream _ = False"

fun is_read :: "event \<Rightarrow> bool" where
  "is_read (ReadBody n) = True"
| "is_read _ = False"

definition upstream_calls :: "event list \<Rightarrow> event list" where
  "upstream_calls t = filter is_upstream t"

definition body_reads :: "event list \<Rightarrow> event list" where
  "body_reads t = filter is_read t"

text \<open>The table of section 6 of the specification.\<close>

definition cors_table :: "header list" where
  "cors_table =
     [(''Access-Control-Allow-Origin'', ''*''),
      (''Access-Control-Allow-Methods'', ''GET, POST, PUT, DELETE, OPTIONS''),
      (''Access-Control-Allow-Headers'', ''Content-Type, Authorization, X-DashScope-SSE''),
      (''Access-Control-Max-Age'', ''86400'')]"

subsection \<open>Notions of the specification\<close>

text \<open>The streaming trigger of section 6: some inbound header is named X-DashScope-SSE,
  in any case, and has the value \<^verbatim>\<open>enable\<close>.\<close>

definition sse_enabled :: "header list \<Rightarrow> bool" where
  "sse_enabled hs = list_ex (\<lambda>(k, v). lower k = ''x-dashscope-sse'' \<and> v = ''enable'') hs"

text \<open>A header the request denylist lets through.\<close>

definition forwarded :: "header \<Rightarrow> bool" where
  "forwarded h = (lower (fst h) \<notin> set request_denylist)"

text \<open>The delivery of the body: the chunks taken from the upstream and the writes and
  flushes towards the caller, in the order they happen.\<close>

fun is_delivery :: "event \<Rightarrow> bool" where
  "is_delivery (NextChunk c) = True"
| "is_delivery (Write b) = True"
| "is_delivery Flush = True"
| "is_delivery _ = False"

definition delivery :: "event list \<Rightarrow> event list" where
  "delivery t = filter is_delivery t"

text \<open>Chunk by chunk: the delivery takes the chunks of the upstream in their order, and
  each non-empty chunk is written and flushed before the next chunk is taken; an empty chunk
  is taken and not written.\<close>

fun chunkwise :: "bytes list \<Rightarrow> event list \<Rightarrow> bool" where
  "chunkwise [] es = (es = [])"
| "chunkwise (c # cs) es =
     (if c = [] then (case es of NextChunk d # es' \<Rightarrow> d = c \<and> chunkwise cs es' | _ \<Rightarrow> False)
      else (case es of
              NextChunk d # Write w # Flush # es' \<Rightarrow> d = c \<and> w = c \<and> chunkwise cs es'
            | _ \<Rightarrow> False))"

text \<open>A reader for the error bodies: a JSON object with the one member \<^verbatim>\<open>error\<close> whose
  value is a string without escape sequences. It returns the value, and \<open>None\<close> for every
  other text. A character may stand in a JSON string as it is when it is neither the quote,
  nor the backslash, nor a control character.\<close>

definition json_ws :: "char \<Rightarrow> bool" where
  "json_ws c = (c \<in> set [CHR 0x20, CHR 0x09, CHR 0x0A, CHR 0x0D])"

definition json_plain :: "char \<Rightarrow> bool" where
  "json_plain c = (c \<noteq> CHR 0x22 \<and> c \<noteq> CHR 0x5C \<and> 32 \<le> (of_char c :: nat))"

definition skip_ws :: "string \<Rightarrow> string" where
  "skip_ws s = dropWhile json_ws s"

definition expect :: "string \<Rightarrow> string \<Rightarrow> string option" where
  "expect p s = (if prefix p s then Some (drop (length p) s) else None)"

definition json_error_value :: "bytes \<Rightarrow> bytes option" where
  \<open>json_error_value s =
     do {
       s1 \<leftarrow> expect ''{'' (skip_ws s);
       s2 \<leftarrow> expect ''"error"'' (skip_ws s1);
       s3 \<leftarrow> expect '':'' (skip_ws s2);
       s4 \<leftarrow> expect ''"'' (skip_ws s3);
       s5 \<leftarrow> expect ''"'' (dropWhile json_plain s4);
       s6 \<leftarrow> expect ''}'' (skip_ws s5);
       if skip_ws s6 = [] then Some (takeWhile json_plain s4) else None
     }\<close>

text \<open>A trace without its Access-Control-Allow-Headers header.\<close>

fun is_allow_headers :: "event \<Rightarrow> bool" where
  "is_allow_headers (Header k v) = (k = ''Access-Control-Allow-Headers'')"
| "is_allow_headers _ = False"

definition without_allow_headers :: "event list \<Rightarrow> event list" where
  "without_allow_headers t = filter (\<lambda>e. \<not> is_allow_headers e) t"

text \<open>Where an upstream call goes and what it carries, whichever client library makes it.\<close>

fun upstream_target :: "event \<Rightarrow> (string \<times> bytes) list" where
  "upstream_target (RequestsPost a) = [(url a, data a)]"
| "upstream_target (Urlopen q) = [(full_url q, req_data q)]"
| "upstream_target _ = []"

definition upstream_targets :: "event list \<Rightarrow> (string \<times> bytes) list" where
  "upstream_targets t = concat (map upstream_target t)"

text \<open>Filling a dictionary with a list of assignments, the first assignment first.\<close>

fun assign_all :: "header list \<Rightarrow> header list \<Rightarrow> header list" where
  "assign_all [] d = d"
| "assign_all ((k, v) # kvs) d = assign_all kvs (AList.update k v d)"

subsection \<open>An environment for running the handlers\<close>

text \<open>\<open>digits_int\<close> stands for \<^verbatim>\<open>int\<close> on the texts used below, strings of decimal
  digits; \<open>quoted\<close> for \<^verbatim>\<open>repr\<close> on strings without quotes or special characters. The
  upstream is given by its answer to every call.\<close>

definition digit_value :: "char \<Rightarrow> int" where
  "digit_value c = int (of_char c) - 48"

definition is_digit :: "char \<Rightarrow> bool" where
  "is_digit c = (48 \<le> (of_char c :: nat) \<and> (of_char c :: nat) \<le> 57)"

definition digits_int :: "string \<Rightarrow> bytes + int" where
  "digits_int s =
     (if s \<noteq> [] \<and> list_all is_digit s
      then Inr (foldl (\<lambda>n c. 10 * n + digit_value c) 0 s)
      else Inl (''invalid literal for int() with base 10: '' @ [CHR 0x27] @ s @ [CHR 0x27]))"

definition quoted :: "string \<Rightarrow> string" where
  "quoted s = [CHR 0x27] @ s @ [CHR 0x27]"

definition example_env :: "requests_result \<Rightarrow> urlopen_result \<Rightarrow> env" where
  "example_env via_requests via_urllib =
     \<lparr>version_string = ''BaseHTTP/0.6 Python/3.11.10'',
      date_time_string = ''Wed, 04 Nov 2026 12:00:00 GMT'',
      py_int = digits_int,
      py_repr = quoted,
      requests_post = (\<lambda>a. via_requests),
      urlopen = (\<lambda>q. via_urllib)\<rparr>"

text \<open>An upstream that cannot be reached, and one that answers with an event stream in
  three chunks, the second of them empty.\<close>

definition unreachable :: env where
  "unreachable =
     example_env (RequestException ''connection refused'') (UrlopenException ''connection refused'')"

definition sse_response :: requests_response where
  "sse_response =
     \<lparr>status_code = 200,
      resp_headers = [(''Content-Type'', ''text/event-stream''), (''Content-Encoding'', ''gzip'')],
      content = ''data: hello'',
      iter_content = [''data: '', [], ''hello''],
      iter_error = None\<rparr>"

definition gzip_response :: urllib_response where
  "gzip_response =
     \<lparr>getcode = 200,
      info_headers = [(''Content-Type'', ''application/json''), (''Content-Encoding'', ''gzip'')],
      read = ''compressed''\<rparr>"

definition answering :: env where
  "answering = example_env (Response sse_response) (UrlopenResponse gzip_response)"

section \<open>Observations on the parts of a trace\<close>

lemma response_status_append: "response_status (a @ b) = response_status a @ response_status b"
  by (simp add: response_status_def)

lemma response_headers_append:
  "response_headers (a @ b) = response_headers a @ response_headers b"
  by (simp add: response_headers_def)

lemma response_writes_append: "response_writes (a @ b) = response_writes a @ response_writes b"
  by (simp add: response_writes_def)

lemma upstream_calls_append: "upstream_calls (a @ b) = upstream_calls a @ upstream_calls b"
  by (simp add: upstream_calls_def)

lemma body_reads_append: "body_reads (a @ b) = body_reads a @ body_reads b"
  by (simp add: body_reads_def)

lemmas obs_append = response_status_append response_headers_append response_writes_append
  upstream_calls_append body_reads_append

lemmas obs_defs = response_status_def response_headers_def response_writes_def
  upstream_calls_def body_reads_def

lemma obs_Nil:
  "response_status [] = []"
  "response_headers [] = []"
  "response_writes [] = []"
  "upstream_calls [] = []"
  "body_reads [] = []"
  by (simp_all add: obs_defs)

lemma obs_Cons:
  "response_status (e # t) = the_status e @ response_status t"
  "response_headers (e # t) = the_header e @ response_headers t"
  "response_writes (e # t) = the_write e @ response_writes t"
  "upstream_calls (e # t) = (if is_upstream e then [e] else []) @ upstream_calls t"
  "body_reads (e # t) = (if is_read e then [e] else []) @ body_reads t"
  by (simp_all add: obs_defs)

lemma send_response_obs:
  "response_status (send_response E c) = [c]"
  "response_headers (send_response E c) =
     [(''Server'', version_string E), (''Date'', date_time_string E)]"
  "response_writes (send_response E c) = []"
  "upstream_calls (send_response E c) = []"
  "body_reads (send_response E c) = []"
  by (simp_all add: send_response_def obs_defs)

lemma send_header_obs:
  "response_status (send_header k v) = []"
  "response_headers (send_header k v) = [(k, v)]"
  "response_writes (send_header k v) = []"
  "upstream_calls (send_header k v) = []"
  "body_reads (send_header k v) = []"
  by (simp_all add: send_header_def obs_defs)

lemma end_headers_obs:
  "response_status end_headers = []"
  "response_headers end_headers = []"
  "response_writes end_headers = []"
  "upstream_calls end_headers = []"
  "body_reads end_headers = []"
  by (simp_all add: end_headers_def obs_defs)

lemma single_event_obs:
  "response_status [Flush] = []"
  "response_headers [Flush] = []"
  "response_writes [Flush] = []"
  "upstream_calls [Flush] = []"
  "body_reads [Flush] = []"
  "response_status [Write b] = []"
  "response_headers [Write b] = []"
  "response_writes [Write b] = [b]"
  "upstream_calls [Write b] = []"
  "body_reads [Write b] = []"
  "response_status [RequestsPost a] = []"
  "response_headers [RequestsPost a] = []"
  "response_writes [RequestsPost a] = []"
  "upstream_calls [RequestsPost a] = [RequestsPost a]"
  "body_reads [RequestsPost a] = []"
  "response_status [Urlopen q] = []"
  "response_headers [Urlopen q] = []"
  "response_writes [Urlopen q] = []"
  "upstream_calls [Urlopen q] = [Urlopen q]"
  "body_reads [Urlopen q] = []"
  by (simp_all add: obs_defs)

lemma read_post_data_obs:
  "response_status (read_post_data n) = []"
  "response_headers (read_post_data n) = []"
  "response_writes (read_post_data n) = []"
  "upstream_calls (read_post_data n) = []"
  by (simp_all add: read_post_data_def obs_defs)

lemma Simple_cors_obs:
  "response_status Simple_send_cors_headers = []"
  "response_headers Simple_send_cors_headers = cors_table"
  "response_writes Simple_send_cors_headers = []"
  "upstream_calls Simple_send_cors_headers = []"
  "body_reads Simple_send_cors_headers = []"
  by (simp_all add: Simple_send_cors_headers_def cors_table_def obs_append send_header_obs)

lemma CORS_cors_obs:
  "response_status CORS_send_cors_headers = []"
  "response_headers CORS_send_cors_headers =
     [(''Access-Control-Allow-Origin'', ''*''),
      (''Access-Control-Allow-Methods'', ''GET, POST, PUT, DELETE, OPTIONS''),
      (''Access-Control-Allow-Headers'', ''Content-Type, Authorization''),
      (''Access-Control-Max-Age'', ''86400'')]"
  "response_writes CORS_send_cors_headers = []"
  "upstream_calls CORS_send_cors_headers = []"
  "body_reads CORS_send_cors_headers = []"
  by (simp_all add: CORS_send_cors_headers_def obs_append send_header_obs)

lemma send_error_obs:
  "response_status (send_error E r c m) = [c]"
  "upstream_calls (send_error E r c m) = []"
  "body_reads (send_error E r c m) = []"
  by (simp_all add: send_error_def obs_append send_response_obs send_header_obs end_headers_obs
      split: option.splits, simp_all add: obs_defs)

lemma Simple_copy_headers_obs:
  "response_status (Simple_copy_headers hs) = []"
  "response_headers (Simple_copy_headers hs) =
     filter (\<lambda>h. lower (fst h) \<notin> set Simple_response_denylist) hs"
  "response_writes (Simple_copy_headers hs) = []"
  "upstream_calls (Simple_copy_headers hs) = []"
  "body_reads (Simple_copy_headers hs) = []"
  by (induction hs rule: Simple_copy_headers.induct)
     (simp_all add: obs_append send_header_obs, simp_all add: obs_defs)

lemma CORS_copy_headers_obs:
  "response_status (CORS_copy_headers hs) = []"
  "response_headers (CORS_copy_headers hs) =
     filter (\<lambda>h. lower (fst h) \<noteq> ''access-control-allow-origin'') hs"
  "response_writes (CORS_copy_headers hs) = []"
  "upstream_calls (CORS_copy_headers hs) = []"
  "body_reads (CORS_copy_headers hs) = []"
  by (induction hs rule: CORS_copy_headers.induct)
     (simp_all add: obs_append send_header_obs, simp_all add: obs_defs)

lemma Simple_stream_obs:
  "response_status (Simple_stream cs err) = []"
  "response_headers (Simple_stream cs err) = []"
  "response_writes (Simple_stream cs err) = filter (\<lambda>c. c \<noteq> []) cs"
  "upstream_calls (Simple_stream cs err) = []"
  "body_reads (Simple_stream cs err) = []"
  by (induction cs) (auto simp: obs_defs)

lemmas parts_obs = obs_append obs_Nil obs_Cons send_response_obs send_header_obs end_headers_obs
  single_event_obs read_post_data_obs Simple_cors_obs CORS_cors_obs send_error_obs
  Simple_copy_headers_obs CORS_copy_headers_obs Simple_stream_obs

lemma Simple_error_obs:
  "response_status (Simple_request_failed E e) = [500]"
  "response_headers (Simple_request_failed E e) =
     [(''Server'', version_string E), (''Date'', date_time_string E)] @ cors_table @
     [(''Content-Type'', ''application/json'')]"
  "upstream_calls (Simple_request_failed E e) = []"
  "body_reads (Simple_request_failed E e) = []"
  "response_status (Simple_proxy_error E e) = [500]"
  "response_headers (Simple_proxy_error E e) =
     [(''Server'', version_string E), (''Date'', date_time_string E)] @ cors_table @
     [(''Content-Type'', ''application/json'')]"
  "upstream_calls (Simple_proxy_error E e) = []"
  "body_reads (Simple_proxy_error E e) = []"
  by (simp_all add: Simple_request_failed_def Simple_proxy_error_def parts_obs)

lemma Simple_relay_obs:
  "response_status (Simple_relay E s resp) = [status_code resp]"
  "response_headers (Simple_relay E s resp) =
     [(''Server'', version_string E), (''Date'', date_time_string E)] @ cors_table @
     filter (\<lambda>h. lower (fst h) \<notin> set Simple_response_denylist) (resp_headers resp)"
  "upstream_calls (Simple_relay E s resp) = []"
  "body_reads (Simple_relay E s resp) = []"
  by (simp_all add: Simple_relay_def parts_obs)

lemma CORS_error_obs:
  "response_status (CORS_proxy_error E e) = [500]"
  "response_headers (CORS_proxy_error E e) =
     [(''Server'', version_string E), (''Date'', date_time_string E)] @
     response_headers CORS_send_cors_headers @ [(''Content-Type'', ''application/json'')]"
  "upstream_calls (CORS_proxy_error E e) = []"
  "body_reads (CORS_proxy_error E e) = []"
  "response_status (CORS_http_error E c reason rd) = [c]"
  "response_headers (CORS_http_error E c reason rd) =
     [(''Server'', version_string E), (''Date'', date_time_string E)] @
     response_headers CORS_send_cors_headers"
  "upstream_calls (CORS_http_error E c reason rd) = []"
  "body_reads (CORS_http_error E c reason rd) = []"
  by (simp_all add: CORS_proxy_error_def CORS_http_error_def parts_obs split: option.splits)

lemma CORS_relay_obs:
  "response_status (CORS_relay E resp) = [getcode resp]"
  "response_headers (CORS_relay E resp) =
     [(''Server'', version_string E), (''Date'', date_time_string E)] @
     response_headers CORS_send_cors_headers @
     filter (\<lambda>h. lower (fst h) \<noteq> ''access-control-allow-origin'') (info_headers resp)"
  "upstream_calls (CORS_relay E resp) = []"
  "body_reads (CORS_relay E resp) = []"
  by (simp_all add: CORS_relay_def parts_obs)

section \<open>Preflight\<close>

text \<open>
  Claim C9, as the code has it. An OPTIONS request, whatever its path, is answered with
  status 200, no write to the body, and neither a call to the upstream nor a read of the
  request body. Its headers are Server and Date of the base class followed by the four
  CORS headers of the handler: for SimpleProxyHandler the table of section 6 with its
  values, for CORSProxyHandler the same names and values except that
  Access-Control-Allow-Headers is \<^verbatim>\<open>Content-Type, Authorization\<close>.
\<close>

theorem options_preflight:
  assumes "command r = ''OPTIONS''"
  shows "response_status (handle_one_request h E r) = [200]
       \<and> response_writes (handle_one_request h E r) = []
       \<and> response_body (handle_one_request h E r) = []
       \<and> response_headers (handle_one_request SimpleProxyHandler E r) =
           [(''Server'', version_string E), (''Date'', date_time_string E)] @ cors_table
       \<and> response_headers (handle_one_request CORSProxyHandler E r) =
           [(''Server'', version_string E), (''Date'', date_time_string E),
            (''Access-Control-Allow-Origin'', ''*''),
            (''Access-Control-Allow-Methods'', ''GET, POST, PUT, DELETE, OPTIONS''),
            (''Access-Control-Allow-Headers'', ''Content-Type, Authorization''),
            (''Access-Control-Max-Age'', ''86400'')]
       \<and> upstream_calls (handle_one_request h E r) = []
       \<and> body_reads (handle_one_request h E r) = []"
proof -
  have s: "response_headers (handle_one_request SimpleProxyHandler E r) =
      [(''Server'', version_string E), (''Date'', date_time_string E)] @ cors_table"
    using assms
    by (simp add: handle_one_request_def Simple_do_OPTIONS_def parts_obs)
  have c: "response_headers (handle_one_request CORSProxyHandler E r) =
      [(''Server'', version_string E), (''Date'', date_time_string E),
       (''Access-Control-Allow-Origin'', ''*''),
       (''Access-Control-Allow-Methods'', ''GET, POST, PUT, DELETE, OPTIONS''),
       (''Access-Control-Allow-Headers'', ''Content-Type, Authorization''),
       (''Access-Control-Max-Age'', ''86400'')]"
    using assms
    by (simp add: handle_one_request_def CORS_do_OPTIONS_def parts_obs)
  have rest: "response_status (handle_one_request h E r) = [200]
      \<and> response_writes (handle_one_request h E r) = []
      \<and> response_body (handle_one_request h E r) = []
      \<and> upstream_calls (handle_one_request h E r) = []
      \<and> body_reads (handle_one_request h E r) = []"
    using assms
    by (cases h)
       (simp_all add: handle_one_request_def Simple_do_OPTIONS_def CORS_do_OPTIONS_def
          response_body_def parts_obs)
  from s c rest show ?thesis
    by blast
qed

theorem options_preflight_witness:
  "command \<lparr>command = ''OPTIONS'', path = ''/anything'', headers = [], rfile = []\<rparr> = ''OPTIONS''
   \<and> response_status (handle_one_request CORSProxyHandler unreachable
        \<lparr>command = ''OPTIONS'', path = ''/anything'', headers = [], rfile = []\<rparr>) = [200]
   \<and> response_body (handle_one_request CORSProxyHandler unreachable
        \<lparr>command = ''OPTIONS'', path = ''/anything'', headers = [], rfile = []\<rparr>) = []
   \<and> response_headers (handle_one_request SimpleProxyHandler unreachable
        \<lparr>command = ''OPTIONS'', path = ''/anything'', headers = [], rfile = []\<rparr>) =
       [(''Server'', ''BaseHTTP/0.6 Python/3.11.10''),
        (''Date'', ''Wed, 04 Nov 2026 12:00:00 GMT'')] @ cors_table
   \<and> (''Access-Control-Allow-Headers'', ''Content-Type, Authorization'')
       \<in> set (response_headers (handle_one_request CORSProxyHandler unreachable
        \<lparr>command = ''OPTIONS'', path = ''/anything'', headers = [], rfile = []\<rparr>))
   \<and> upstream_calls (handle_one_request CORSProxyHandler unreachable
        \<lparr>command = ''OPTIONS'', path = ''/anything'', headers = [], rfile = []\<rparr>) = []"
  using options_preflight [of "\<lparr>command = ''OPTIONS'', path = ''/anything'', headers = [], rfile = []\<rparr>"
      CORSProxyHandler unreachable]
  by (simp add: unreachable_def example_env_def)

theorem options_preflight_counterexample:
  "response_status (handle_one_request CORSProxyHandler answering
      \<lparr>command = ''OPTIONS'', path = ''/'', headers = [], rfile = []\<rparr>) = [200]
   \<and> response_headers (handle_one_request CORSProxyHandler answering
      \<lparr>command = ''OPTIONS'', path = ''/'', headers = [], rfile = []\<rparr>) =
     [(''Server'', ''BaseHTTP/0.6 Python/3.11.10''),
      (''Date'', ''Wed, 04 Nov 2026 12:00:00 GMT''),
      (''Access-Control-Allow-Origin'', ''*''),
      (''Access-Control-Allow-Methods'', ''GET, POST, PUT, DELETE, OPTIONS''),
      (''Access-Control-Allow-Headers'', ''Content-Type, Authorization''),
      (''Access-Control-Max-Age'', ''86400'')]
   \<and> (''Access-Control-Allow-Headers'', ''Content-Type, Authorization, X-DashScope-SSE'')
       \<in> set cors_table
   \<and> \<not> set cors_table \<subseteq> set (response_headers (handle_one_request CORSProxyHandler answering
      \<lparr>command = ''OPTIONS'', path = ''/'', headers = [], rfile = []\<rparr>))"
  by (simp add: handle_one_request_def CORS_do_OPTIONS_def CORS_send_cors_headers_def
      send_response_def send_header_def end_headers_def answering_def example_env_def
      obs_defs cors_table_def)

section \<open>Routing\<close>

lemma rejected_post:
  assumes "command r = ''POST''" and "\<not> startswith (path r) ''/api/dashscope/''"
  shows "handle_one_request h E r = send_error E r 404 ''Not Found'' @ [Flush]"
  using assms
  by (cases h) (simp_all add: handle_one_request_def Simple_do_POST_def CORS_do_POST_def)

lemma unsupported_method:
  assumes "command r \<noteq> ''OPTIONS''" and "command r \<noteq> ''POST''"
  shows "handle_one_request h E r =
           send_error E r 501 (''Unsupported method ('' @ py_repr E (command r) @ '')'')"
  using assms by (simp add: handle_one_request_def)

lemma error_page_404:
  "error_page 404 message =
     Some (encode (error_message_format 404 (html_escape message)
             ''Nothing matches the given URI''))"
  by (simp add: error_page_def explain_of_def html_escape_def replace_def)

lemma encode_append: "encode (a @ b) = encode a @ encode b"
  by (simp add: encode_def)

lemma encode_nonempty: "s \<noteq> [] \<Longrightarrow> encode s \<noteq> []"
  by (cases s) (auto simp: encode_def utf8_char_def Let_def)

lemma error_message_nonempty: "encode (error_message_format c m x) \<noteq> []"
  by (rule encode_nonempty) (simp add: error_message_format_def)

text \<open>
  Claim C10. A POST whose path is the prefix \<^verbatim>\<open>/api/dashscope\<close> followed by anything that
  does not begin with a slash, nothing at all included, is answered 404 and not forwarded:
  no call to the upstream, no read of the request body.
\<close>

theorem prefix_needs_slash:
  assumes "command r = ''POST''"
    and "path r = ''/api/dashscope'' @ rest"
    and "\<not> startswith rest ''/''"
  shows "\<not> startswith (path r) ''/api/dashscope/''
       \<and> response_status (handle_one_request h E r) = [404]
       \<and> upstream_calls (handle_one_request h E r) = []
       \<and> body_reads (handle_one_request h E r) = []"
proof -
  from assms(2,3) have no: "\<not> startswith (path r) ''/api/dashscope/''"
    by (simp add: startswith_def)
  from rejected_post [OF assms(1) no]
  have "handle_one_request h E r = send_error E r 404 ''Not Found'' @ [Flush]" .
  with no show ?thesis
    by (simp add: parts_obs)
qed

theorem prefix_needs_slash_witness:
  "\<not> startswith [] ''/'' \<and> \<not> startswith ''X/v1'' ''/''
   \<and> response_status (handle_one_request SimpleProxyHandler answering
        \<lparr>command = ''POST'', path = ''/api/dashscope'', headers = [], rfile = []\<rparr>) = [404]
   \<and> upstream_calls (handle_one_request SimpleProxyHandler answering
        \<lparr>command = ''POST'', path = ''/api/dashscope'', headers = [], rfile = []\<rparr>) = []
   \<and> response_status (handle_one_request CORSProxyHandler answering
        \<lparr>command = ''POST'', path = ''/api/dashscopeX/v1'', headers = [], rfile = []\<rparr>) = [404]
   \<and> upstream_calls (handle_one_request CORSProxyHandler answering
        \<lparr>command = ''POST'', path = ''/api/dashscopeX/v1'', headers = [], rfile = []\<rparr>) = []"
  using
    prefix_needs_slash [of "\<lparr>command = ''POST'', path = ''/api/dashscope'', headers = [], rfile = []\<rparr>"
      "[]" SimpleProxyHandler answering]
    prefix_needs_slash [of "\<lparr>command = ''POST'', path = ''/api/dashscopeX/v1'', headers = [], rfile = []\<rparr>"
      "''X/v1''" CORSProxyHandler answering]
  by (simp add: startswith_def)

text \<open>
  Claim C4, as the code has it. A POST whose path does not start with
  \<^verbatim>\<open>/api/dashscope/\<close> is answered through \<^verbatim>\<open>send_error(404, "Not Found")\<close> of the base
  class: status 404, the error page of the base class as the body (which is not empty), no
  call to the upstream and no read of the request body. A request with a command other than
  OPTIONS and POST does not reach the handler: the base class answers 501, again without a
  call to the upstream or a read.
\<close>

theorem path_mismatch_not_found:
  "(command r = ''POST'' \<and> \<not> startswith (path r) ''/api/dashscope/'' \<longrightarrow>
      response_status (handle_one_request h E r) = [404]
    \<and> response_writes (handle_one_request h E r) =
        [encode (error_message_format 404 ''Not Found'' ''Nothing matches the given URI'')]
    \<and> response_body (handle_one_request h E r) \<noteq> []
    \<and> upstream_calls (handle_one_request h E r) = []
    \<and> body_reads (handle_one_request h E r) = [])
   \<and> (command r \<noteq> ''OPTIONS'' \<and> command r \<noteq> ''POST'' \<longrightarrow>
      response_status (handle_one_request h E r) = [501]
    \<and> upstream_calls (handle_one_request h E r) = []
    \<and> body_reads (handle_one_request h E r) = [])"
proof (intro conjI impI)
  assume a: "command r = ''POST'' \<and> \<not> startswith (path r) ''/api/dashscope/''"
  then have t: "handle_one_request h E r = send_error E r 404 ''Not Found'' @ [Flush]"
    by (simp add: rejected_post)
  have nf: "html_escape ''Not Found'' = ''Not Found''"
    by (simp add: html_escape_def replace_def)
  have w: "response_writes (send_error E r 404 ''Not Found'') =
             [encode (error_message_format 404 ''Not Found'' ''Nothing matches the given URI'')]"
    using a error_message_nonempty [of 404 "''Not Found''" "''Nothing matches the given URI''"]
    by (simp add: send_error_def error_page_404 nf parts_obs)
  show "response_status (handle_one_request h E r) = [404]"
    by (simp add: t parts_obs)
  show "response_writes (handle_one_request h E r) =
          [encode (error_message_format 404 ''Not Found'' ''Nothing matches the given URI'')]"
    by (simp add: t w parts_obs)
  then show "response_body (handle_one_request h E r) \<noteq> []"
    by (simp add: response_body_def error_message_nonempty)
  show "upstream_calls (handle_one_request h E r) = []"
    by (simp add: t parts_obs)
  show "body_reads (handle_one_request h E r) = []"
    by (simp add: t parts_obs)
next
  assume a: "command r \<noteq> ''OPTIONS'' \<and> command r \<noteq> ''POST''"
  then have t: "handle_one_request h E r =
      send_error E r 501 (''Unsupported method ('' @ py_repr E (command r) @ '')'')"
    by (simp add: unsupported_method)
  show "response_status (handle_one_request h E r) = [501]"
    by (simp add: t parts_obs)
  show "upstream_calls (handle_one_request h E r) = []"
    by (simp add: t parts_obs)
  show "body_reads (handle_one_request h E r) = []"
    by (simp add: t parts_obs)
qed

theorem path_mismatch_not_found_witness:
  "command \<lparr>command = ''POST'', path = ''/v1/foo'', headers = [], rfile = ''{}''\<rparr> = ''POST''
   \<and> \<not> startswith (path \<lparr>command = ''POST'', path = ''/v1/foo'', headers = [], rfile = ''{}''\<rparr>)
         ''/api/dashscope/''
   \<and> response_status (handle_one_request CORSProxyHandler answering
        \<lparr>command = ''POST'', path = ''/v1/foo'', headers = [], rfile = ''{}''\<rparr>) = [404]
   \<and> upstream_calls (handle_one_request CORSProxyHandler answering
        \<lparr>command = ''POST'', path = ''/v1/foo'', headers = [], rfile = ''{}''\<rparr>) = []
   \<and> command \<lparr>command = ''PUT'', path = ''/v1/foo'', headers = [], rfile = ''{}''\<rparr> \<noteq> ''OPTIONS''
   \<and> command \<lparr>command = ''PUT'', path = ''/v1/foo'', headers = [], rfile = ''{}''\<rparr> \<noteq> ''POST''
   \<and> response_status (handle_one_request SimpleProxyHandler answering
        \<lparr>command = ''PUT'', path = ''/v1/foo'', headers = [], rfile = ''{}''\<rparr>) = [501]"
  using
    path_mismatch_not_found [of "\<lparr>command = ''POST'', path = ''/v1/foo'', headers = [], rfile = ''{}''\<rparr>"
      CORSProxyHandler answering]
    path_mismatch_not_found [of "\<lparr>command = ''PUT'', path = ''/v1/foo'', headers = [], rfile = ''{}''\<rparr>"
      SimpleProxyHandler answering]
  by (simp add: startswith_def)

theorem path_mismatch_body_counterexample:
  "response_status (handle_one_request SimpleProxyHandler unreachable
      \<lparr>command = ''POST'', path = ''/v1/foo'', headers = [], rfile = []\<rparr>) = [404]
   \<and> length (response_body (handle_one_request SimpleProxyHandler unreachable
      \<lparr>command = ''POST'', path = ''/v1/foo'', headers = [], rfile = []\<rparr>)) = 330"
  by (simp add: handle_one_request_def Simple_do_POST_def startswith_def send_error_def
      send_response_def send_header_def end_headers_def
      error_page_def explain_of_def html_escape_def replace_def response_body_def obs_defs
      encode_def utf8_char_def error_message_format_def NL_def digit_char_def)

section \<open>The responses of \<^verbatim>\<open>do_POST\<close> to an accepted request\<close>

lemma Simple_do_POST_accepted:
  assumes "startswith (path r) ''/api/dashscope/''"
  shows "Simple_do_POST E r =
     (case content_length E r of
        Inl e \<Rightarrow> Simple_proxy_error E e
      | Inr n \<Rightarrow>
          read_post_data n @ [RequestsPost (Simple_post_args r n)] @
          (case requests_post E (Simple_post_args r n) of
             RequestException e \<Rightarrow> Simple_request_failed E e
           | PostException e \<Rightarrow> Simple_proxy_error E e
           | Response response \<Rightarrow>
               Simple_relay E (stream (Simple_post_args r n)) response))"
  using assms by (simp add: Simple_do_POST_def)

lemma CORS_do_POST_accepted:
  assumes "startswith (path r) ''/api/dashscope/''"
  shows "CORS_do_POST E r =
     (case content_length E r of
        Inl e \<Rightarrow> CORS_proxy_error E e
      | Inr n \<Rightarrow>
          read_post_data n @ [Urlopen (CORS_request r n)] @
          (case urlopen E (CORS_request r n) of
             HTTPError code reason error_read \<Rightarrow> CORS_http_error E code reason error_read
           | UrlopenException e \<Rightarrow> CORS_proxy_error E e
           | UrlopenResponse response \<Rightarrow> CORS_relay E response))"
  using assms by (simp add: CORS_do_POST_def)

lemma Simple_do_POST_headers:
  assumes "startswith (path r) ''/api/dashscope/''"
  shows "\<exists>more. response_headers (Simple_do_POST E r) =
           [(''Server'', version_string E), (''Date'', date_time_string E)] @ cors_table @ more"
  by (simp add: Simple_do_POST_accepted [OF assms] parts_obs Simple_error_obs Simple_relay_obs
      split: sum.splits requests_result.splits)

lemma CORS_do_POST_headers:
  assumes "startswith (path r) ''/api/dashscope/''"
  shows "\<exists>more. response_headers (CORS_do_POST E r) =
           [(''Server'', version_string E), (''Date'', date_time_string E)] @
           response_headers CORS_send_cors_headers @ more"
  by (simp add: CORS_do_POST_accepted [OF assms] parts_obs CORS_error_obs CORS_relay_obs
      split: sum.splits urlopen_result.splits)

section \<open>CORS headers\<close>

text \<open>
  Claim C1, as the code has it. Every response a handler builds itself, that is the answer
  to an OPTIONS request and the answer to a POST request with an accepted path (the relay of
  an upstream response, of an upstream HTTP error, or a 500 error response), carries the
  four CORS headers of its \<^verbatim>\<open>send_cors_headers\<close>: for SimpleProxyHandler the table of
  section 6, for CORSProxyHandler the same names and values except that
  Access-Control-Allow-Headers is \<^verbatim>\<open>Content-Type, Authorization\<close>. The 404 answer to a
  path mismatch is written by \<^verbatim>\<open>send_error\<close> of the base class and is not covered.
\<close>

theorem cors_headers_present:
  assumes "command r = ''OPTIONS''
         \<or> (command r = ''POST'' \<and> startswith (path r) ''/api/dashscope/'')"
  shows "set cors_table \<subseteq> set (response_headers (handle_one_request SimpleProxyHandler E r))
       \<and> set [(''Access-Control-Allow-Origin'', ''*''),
               (''Access-Control-Allow-Methods'', ''GET, POST, PUT, DELETE, OPTIONS''),
               (''Access-Control-Allow-Headers'', ''Content-Type, Authorization''),
               (''Access-Control-Max-Age'', ''86400'')]
           \<subseteq> set (response_headers (handle_one_request CORSProxyHandler E r))"
proof (cases "command r = ''OPTIONS''")
  case True
  then show ?thesis
    by (auto simp: handle_one_request_def Simple_do_OPTIONS_def CORS_do_OPTIONS_def parts_obs)
next
  case False
  with assms have post: "command r = ''POST''" and acc: "startswith (path r) ''/api/dashscope/''"
    by simp_all
  obtain ms where ms: "response_headers (Simple_do_POST E r) =
      [(''Server'', version_string E), (''Date'', date_time_string E)] @ cors_table @ ms"
    using Simple_do_POST_headers [OF acc] by blast
  obtain mc where mc: "response_headers (CORS_do_POST E r) =
      [(''Server'', version_string E), (''Date'', date_time_string E)] @
      response_headers CORS_send_cors_headers @ mc"
    using CORS_do_POST_headers [OF acc] by blast
  have s: "set cors_table \<subseteq> set (response_headers (handle_one_request SimpleProxyHandler E r))"
    using post by (auto simp: handle_one_request_def ms parts_obs)
  have c: "set (response_headers CORS_send_cors_headers)
             \<subseteq> set (response_headers (handle_one_request CORSProxyHandler E r))"
    using post by (auto simp: handle_one_request_def mc response_headers_append single_event_obs)
  from s c show ?thesis
    by (simp add: CORS_cors_obs)
qed

theorem cors_headers_present_witness:
  "command \<lparr>command = ''POST'', path = ''/api/dashscope/v1/chat'', headers = [], rfile = []\<rparr> = ''POST''
   \<and> startswith (path \<lparr>command = ''POST'', path = ''/api/dashscope/v1/chat'', headers = [], rfile = []\<rparr>)
        ''/api/dashscope/''
   \<and> set cors_table \<subseteq> set (response_headers (handle_one_request SimpleProxyHandler unreachable
        \<lparr>command = ''POST'', path = ''/api/dashscope/v1/chat'', headers = [], rfile = []\<rparr>))
   \<and> (''Access-Control-Allow-Headers'', ''Content-Type, Authorization'')
       \<in> set (response_headers (handle_one_request CORSProxyHandler unreachable
        \<lparr>command = ''POST'', path = ''/api/dashscope/v1/chat'', headers = [], rfile = []\<rparr>))"
  using cors_headers_present
    [of "\<lparr>command = ''POST'', path = ''/api/dashscope/v1/chat'', headers = [], rfile = []\<rparr>"
      unreachable]
  by (simp add: startswith_def)

theorem cors_headers_missing_counterexample:
  "response_headers (handle_one_request SimpleProxyHandler unreachable
      \<lparr>command = ''POST'', path = ''/v1/foo'', headers = [], rfile = []\<rparr>) =
     [(''Server'', ''BaseHTTP/0.6 Python/3.11.10''),
      (''Date'', ''Wed, 04 Nov 2026 12:00:00 GMT''),
      (''Connection'', ''close''),
      (''Content-Type'', ''text/html;charset=utf-8''),
      (''Content-Length'', ''330'')]
   \<and> \<not> set cors_table \<subseteq> set (response_headers (handle_one_request SimpleProxyHandler unreachable
      \<lparr>command = ''POST'', path = ''/v1/foo'', headers = [], rfile = []\<rparr>))
   \<and> response_headers (handle_one_request CORSProxyHandler unreachable
      \<lparr>command = ''POST'', path = ''/api/dashscope/v1/chat'', headers = [], rfile = []\<rparr>) =
     [(''Server'', ''BaseHTTP/0.6 Python/3.11.10''),
      (''Date'', ''Wed, 04 Nov 2026 12:00:00 GMT''),
      (''Access-Control-Allow-Origin'', ''*''),
      (''Access-Control-Allow-Methods'', ''GET, POST, PUT, DELETE, OPTIONS''),
      (''Access-Control-Allow-Headers'', ''Content-Type, Authorization''),
      (''Access-Control-Max-Age'', ''86400''),
      (''Content-Type'', ''application/json'')]
   \<and> \<not> set cors_table \<subseteq> set (response_headers (handle_one_request CORSProxyHandler unreachable
      \<lparr>command = ''POST'', path = ''/api/dashscope/v1/chat'', headers = [], rfile = []\<rparr>))"
proof -
  let ?miss = "\<lparr>command = ''POST'', path = ''/v1/foo'', headers = [], rfile = []\<rparr>"
  let ?hit = "\<lparr>command = ''POST'', path = ''/api/dashscope/v1/chat'', headers = [], rfile = []\<rparr>"
  have 1: "response_headers (handle_one_request SimpleProxyHandler unreachable ?miss) =
     [(''Server'', ''BaseHTTP/0.6 Python/3.11.10''),
      (''Date'', ''Wed, 04 Nov 2026 12:00:00 GMT''),
      (''Connection'', ''close''),
      (''Content-Type'', ''text/html;charset=utf-8''),
      (''Content-Length'', ''330'')]"
    by (simp add: handle_one_request_def Simple_do_POST_def startswith_def send_error_def
        send_response_def send_header_def end_headers_def unreachable_def example_env_def
        error_page_def explain_of_def html_escape_def replace_def obs_defs
        encode_def utf8_char_def error_message_format_def NL_def digit_char_def)
  have a: "startswith (path ?hit) ''/api/dashscope/''"
    by (simp add: startswith_def)
  have t: "CORS_do_POST unreachable ?hit =
      [Urlopen (CORS_request ?hit 0)] @ CORS_proxy_error unreachable ''connection refused''"
    by (simp add: CORS_do_POST_accepted [OF a] content_length_def read_post_data_def
        unreachable_def example_env_def)
  have 2: "response_headers (handle_one_request CORSProxyHandler unreachable ?hit) =
     [(''Server'', ''BaseHTTP/0.6 Python/3.11.10''),
      (''Date'', ''Wed, 04 Nov 2026 12:00:00 GMT''),
      (''Access-Control-Allow-Origin'', ''*''),
      (''Access-Control-Allow-Methods'', ''GET, POST, PUT, DELETE, OPTIONS''),
      (''Access-Control-Allow-Headers'', ''Content-Type, Authorization''),
      (''Access-Control-Max-Age'', ''86400''),
      (''Content-Type'', ''application/json'')]"
    by (simp add: handle_one_request_def t parts_obs CORS_error_obs)
       (simp add: unreachable_def example_env_def)
  show ?thesis
    unfolding 1 2 by (simp add: cors_table_def)
qed

section \<open>Headers of the relayed response\<close>

text \<open>What the simplifier needs to run \<open>lower\<close> and \<open>capitalize\<close> on a given string.\<close>

lemmas lower_eval = lower_def py_lower_char_def py_upper_char_def char_of_def bit_Suc_0_iff

text \<open>
  Claim C6, as the code has it. When the client library returns an upstream response to an
  accepted POST, SimpleProxyHandler copies, in order and unchanged, exactly the upstream
  headers whose lowercased name is none of access-control-allow-origin, content-encoding
  and transfer-encoding. CORSProxyHandler never copies access-control-allow-origin and copies,
  in order and unchanged, every upstream header whose lowercased name is none of the three;
  nothing is promised here about what it does with content-encoding and transfer-encoding.
\<close>

theorem response_header_filtering:
  assumes "startswith (path r) ''/api/dashscope/''" and "content_length E r = Inr n"
  shows "(requests_post E (Simple_post_args r n) = Response resp \<longrightarrow>
            response_headers (Simple_do_POST E r) =
              [(''Server'', version_string E), (''Date'', date_time_string E)] @ cors_table @
              filter (\<lambda>h. lower (fst h) \<notin> set [''access-control-allow-origin'',
                        ''content-encoding'', ''transfer-encoding'']) (resp_headers resp))
       \<and> (urlopen E (CORS_request r n) = UrlopenResponse uresp \<longrightarrow>
            (\<exists>copied.
               response_headers (CORS_do_POST E r) =
                 [(''Server'', version_string E), (''Date'', date_time_string E)] @
                 response_headers CORS_send_cors_headers @ copied
             \<and> (\<forall>h \<in> set copied. lower (fst h) \<noteq> ''access-control-allow-origin'')
             \<and> filter (\<lambda>h. lower (fst h) \<notin> set [''access-control-allow-origin'',
                          ''content-encoding'', ''transfer-encoding'']) copied =
               filter (\<lambda>h. lower (fst h) \<notin> set [''access-control-allow-origin'',
                          ''content-encoding'', ''transfer-encoding'']) (info_headers uresp)))"
proof (intro conjI impI)
  assume "requests_post E (Simple_post_args r n) = Response resp"
  with assms(2) show "response_headers (Simple_do_POST E r) =
      [(''Server'', version_string E), (''Date'', date_time_string E)] @ cors_table @
      filter (\<lambda>h. lower (fst h) \<notin> set [''access-control-allow-origin'',
                ''content-encoding'', ''transfer-encoding'']) (resp_headers resp)"
    by (simp add: Simple_do_POST_accepted [OF assms(1)] parts_obs Simple_relay_obs
        Simple_response_denylist_def)
next
  assume u: "urlopen E (CORS_request r n) = UrlopenResponse uresp"
  let ?copied = "filter (\<lambda>h. lower (fst h) \<noteq> ''access-control-allow-origin'') (info_headers uresp)"
  from u assms(2) have "response_headers (CORS_do_POST E r) =
      [(''Server'', version_string E), (''Date'', date_time_string E)] @
      response_headers CORS_send_cors_headers @ ?copied"
    by (simp add: CORS_do_POST_accepted [OF assms(1)] parts_obs CORS_relay_obs)
  moreover have "\<forall>h \<in> set ?copied. lower (fst h) \<noteq> ''access-control-allow-origin''"
    by simp
  moreover have "filter (\<lambda>h. lower (fst h) \<notin> set [''access-control-allow-origin'',
                          ''content-encoding'', ''transfer-encoding'']) ?copied =
               filter (\<lambda>h. lower (fst h) \<notin> set [''access-control-allow-origin'',
                          ''content-encoding'', ''transfer-encoding'']) (info_headers uresp)"
    by (simp add: conj_commute cong: conj_cong)
  ultimately show "\<exists>copied.
      response_headers (CORS_do_POST E r) =
        [(''Server'', version_string E), (''Date'', date_time_string E)] @
        response_headers CORS_send_cors_headers @ copied
      \<and> (\<forall>h \<in> set copied. lower (fst h) \<noteq> ''access-control-allow-origin'')
      \<and> filter (\<lambda>h. lower (fst h) \<notin> set [''access-control-allow-origin'',
                   ''content-encoding'', ''transfer-encoding'']) copied =
        filter (\<lambda>h. lower (fst h) \<notin> set [''access-control-allow-origin'',
                   ''content-encoding'', ''transfer-encoding'']) (info_headers uresp)"
    by blast
qed

lemma content_length_absent: "headers r = [] \<Longrightarrow> content_length E r = Inr 0"
  by (simp add: content_length_def)

theorem response_header_filtering_witness:
  "startswith (path \<lparr>command = ''POST'', path = ''/api/dashscope/v1/chat'', headers = [], rfile = []\<rparr>)
     ''/api/dashscope/''
   \<and> content_length answering
        \<lparr>command = ''POST'', path = ''/api/dashscope/v1/chat'', headers = [], rfile = []\<rparr> = Inr 0
   \<and> requests_post answering (Simple_post_args
        \<lparr>command = ''POST'', path = ''/api/dashscope/v1/chat'', headers = [], rfile = []\<rparr> 0)
       = Response sse_response
   \<and> urlopen answering (CORS_request
        \<lparr>command = ''POST'', path = ''/api/dashscope/v1/chat'', headers = [], rfile = []\<rparr> 0)
       = UrlopenResponse gzip_response
   \<and> response_headers (Simple_do_POST answering
        \<lparr>command = ''POST'', path = ''/api/dashscope/v1/chat'', headers = [], rfile = []\<rparr>) =
       [(''Server'', ''BaseHTTP/0.6 Python/3.11.10''),
        (''Date'', ''Wed, 04 Nov 2026 12:00:00 GMT'')] @ cors_table @
       [(''Content-Type'', ''text/event-stream'')]
   \<and> (''Content-Type'', ''application/json'') \<in> set (response_headers (CORS_do_POST answering
        \<lparr>command = ''POST'', path = ''/api/dashscope/v1/chat'', headers = [], rfile = []\<rparr>))"
proof -
  let ?r = "\<lparr>command = ''POST'', path = ''/api/dashscope/v1/chat'', headers = [], rfile = []\<rparr>"
  let ?keep = "\<lambda>h. lower (fst h) \<notin> set [''access-control-allow-origin'',
                ''content-encoding'', ''transfer-encoding'']"
  have a: "startswith (path ?r) ''/api/dashscope/''"
    by (simp add: startswith_def)
  have b: "content_length answering ?r = Inr 0"
    by (simp add: content_length_def)
  have c: "requests_post answering (Simple_post_args ?r 0) = Response sse_response"
    by (simp add: answering_def example_env_def)
  have d: "urlopen answering (CORS_request ?r 0) = UrlopenResponse gzip_response"
    by (simp add: answering_def example_env_def)
  have l: "lower ''Content-Type'' = ''content-type''"
    "lower ''Content-Encoding'' = ''content-encoding''"
    by (simp_all add: lower_eval)
  note both = response_header_filtering [OF a b, of sse_response gzip_response]
  from both c
  have "response_headers (Simple_do_POST answering ?r) =
      [(''Server'', version_string answering), (''Date'', date_time_string answering)] @ cors_table @
      filter ?keep (resp_headers sse_response)"
    by blast
  then have s: "response_headers (Simple_do_POST answering ?r) =
      [(''Server'', ''BaseHTTP/0.6 Python/3.11.10''),
       (''Date'', ''Wed, 04 Nov 2026 12:00:00 GMT'')] @ cors_table @
      [(''Content-Type'', ''text/event-stream'')]"
    by (simp add: sse_response_def l answering_def example_env_def)
  from both d obtain copied where
    h: "response_headers (CORS_do_POST answering ?r) =
          [(''Server'', version_string answering), (''Date'', date_time_string answering)] @
          response_headers CORS_send_cors_headers @ copied"
    and f: "filter ?keep copied = filter ?keep (info_headers gzip_response)"
    by blast
  have "filter ?keep (info_headers gzip_response) = [(''Content-Type'', ''application/json'')]"
    by (simp add: gzip_response_def l)
  with f have "(''Content-Type'', ''application/json'') \<in> set (filter ?keep copied)"
    by simp
  then have "(''Content-Type'', ''application/json'') \<in> set copied"
    by simp
  with h have u: "(''Content-Type'', ''application/json'')
      \<in> set (response_headers (CORS_do_POST answering ?r))"
    by simp
  from a b c d s u show ?thesis
    by blast
qed

theorem content_encoding_copied_counterexample:
  "lower ''Content-Encoding'' = ''content-encoding''
   \<and> urlopen answering (CORS_request
        \<lparr>command = ''POST'', path = ''/api/dashscope/v1/chat'', headers = [], rfile = []\<rparr> 0)
       = UrlopenResponse gzip_response
   \<and> (''Content-Encoding'', ''gzip'') \<in> set (info_headers gzip_response)
   \<and> response_headers (handle_one_request CORSProxyHandler answering
        \<lparr>command = ''POST'', path = ''/api/dashscope/v1/chat'', headers = [], rfile = []\<rparr>) =
       [(''Server'', ''BaseHTTP/0.6 Python/3.11.10''),
        (''Date'', ''Wed, 04 Nov 2026 12:00:00 GMT''),
        (''Access-Control-Allow-Origin'', ''*''),
        (''Access-Control-Allow-Methods'', ''GET, POST, PUT, DELETE, OPTIONS''),
        (''Access-Control-Allow-Headers'', ''Content-Type, Authorization''),
        (''Access-Control-Max-Age'', ''86400''),
        (''Content-Type'', ''application/json''),
        (''Content-Encoding'', ''gzip'')]"
proof -
  let ?r = "\<lparr>command = ''POST'', path = ''/api/dashscope/v1/chat'', headers = [], rfile = []\<rparr>"
  have l: "lower ''Content-Type'' = ''content-type''" "lower ''Content-Encoding'' = ''content-encoding''"
    by (simp_all add: lower_eval)
  have a: "startswith (path ?r) ''/api/dashscope/''"
    by (simp add: startswith_def)
  have b: "content_length answering ?r = Inr 0"
    by (simp add: content_length_def)
  have c: "urlopen answering (CORS_request ?r 0) = UrlopenResponse gzip_response"
    by (simp add: answering_def example_env_def)
  have "response_headers (CORS_do_POST answering ?r) =
      [(''Server'', version_string answering), (''Date'', date_time_string answering)] @
      response_headers CORS_send_cors_headers @
      filter (\<lambda>h. lower (fst h) \<noteq> ''access-control-allow-origin'') (info_headers gzip_response)"
    by (simp add: CORS_do_POST_accepted [OF a] b c parts_obs CORS_relay_obs)
  then show ?thesis
    using c by (simp add: handle_one_request_def parts_obs gzip_response_def l
        answering_def example_env_def)
qed

section \<open>Failure of the upstream call\<close>

lemma json_error_value_plain:
  assumes "list_all json_plain v"
  shows \<open>json_error_value (''{"error": "'' @ v @ ''"}'') = Some v\<close>
proof -
  from assms have p: "\<And>x. x \<in> set v \<Longrightarrow> json_plain x"
    by (simp add: list_all_iff)
  have d: \<open>dropWhile json_plain (v @ ''"}'') = ''"}''\<close>
    by (simp add: dropWhile_append2 p) (simp add: json_plain_def)
  have t: \<open>takeWhile json_plain (v @ ''"}'') = v\<close>
    by (simp add: takeWhile_append2 p) (simp add: json_plain_def)
  show ?thesis
    using d t
    by (simp add: json_error_value_def skip_ws_def expect_def json_ws_def)
qed

lemma Simple_error_writes:
  \<open>response_writes (Simple_request_failed E e) = [''{"error": "Request failed: '' @ e @ ''"}'']\<close>
  \<open>response_writes (Simple_proxy_error E e) = [''{"error": "Proxy error: '' @ e @ ''"}'']\<close>
  by (simp_all add: Simple_request_failed_def Simple_proxy_error_def parts_obs)

lemma CORS_error_writes:
  \<open>response_writes (CORS_proxy_error E e) = [''{"error": "Proxy error: '' @ e @ ''"}'']\<close>
  by (simp add: CORS_proxy_error_def parts_obs)

text \<open>
  Claim C7, as the code has it. For an accepted POST whose upstream call fails at the
  transport level: SimpleProxyHandler, where \<^verbatim>\<open>requests\<close> raises a RequestException,
  answers 500 with the CORS headers of the table, Content-Type application/json and a body
  sent in one write; when the text of the exception needs no JSON escape, that body is the
  JSON object \<^verbatim>\<open>{"error": "Request failed: \<close> message \<^verbatim>\<open>"}\<close>. CORSProxyHandler, where
  \<^verbatim>\<open>urlopen\<close> raises an exception other than HTTPError, answers 500 with its CORS headers,
  Content-Type application/json and a body sent in one write; when the text of the exception
  needs no JSON escape, that body is the JSON object \<^verbatim>\<open>{"error": "Proxy error: \<close> message
  \<^verbatim>\<open>"}\<close>.
\<close>

theorem upstream_failure_response:
  assumes "startswith (path r) ''/api/dashscope/''" and "content_length E r = Inr n"
  shows \<open>(requests_post E (Simple_post_args r n) = RequestException e \<longrightarrow>
            response_status (Simple_do_POST E r) = [500]
          \<and> set cors_table \<subseteq> set (response_headers (Simple_do_POST E r))
          \<and> (''Content-Type'', ''application/json'') \<in> set (response_headers (Simple_do_POST E r))
          \<and> length (response_writes (Simple_do_POST E r)) = 1
          \<and> (list_all json_plain e \<longrightarrow>
               response_body (Simple_do_POST E r) = ''{"error": "Request failed: '' @ e @ ''"}''
             \<and> json_error_value (response_body (Simple_do_POST E r)) =
                 Some (''Request failed: '' @ e)))
       \<and> (urlopen E (CORS_request r n) = UrlopenException e \<longrightarrow>
            response_status (CORS_do_POST E r) = [500]
          \<and> set (response_headers CORS_send_cors_headers)
               \<subseteq> set (response_headers (CORS_do_POST E r))
          \<and> (''Content-Type'', ''application/json'') \<in> set (response_headers (CORS_do_POST E r))
          \<and> length (response_writes (CORS_do_POST E r)) = 1
          \<and> (list_all json_plain e \<longrightarrow>
               response_body (CORS_do_POST E r) = ''{"error": "Proxy error: '' @ e @ ''"}''
             \<and> json_error_value (response_body (CORS_do_POST E r)) =
                 Some (''Proxy error: '' @ e)))\<close>
proof (intro conjI impI)
  assume f: "requests_post E (Simple_post_args r n) = RequestException e"
  have t: "Simple_do_POST E r =
      read_post_data n @ [RequestsPost (Simple_post_args r n)] @ Simple_request_failed E e"
    by (simp add: Simple_do_POST_accepted [OF assms(1)] assms(2) f)
  show "response_status (Simple_do_POST E r) = [500]"
    by (simp add: t parts_obs Simple_error_obs)
  show "set cors_table \<subseteq> set (response_headers (Simple_do_POST E r))"
    by (auto simp: t parts_obs Simple_error_obs)
  show "(''Content-Type'', ''application/json'') \<in> set (response_headers (Simple_do_POST E r))"
    by (simp add: t parts_obs Simple_error_obs)
  have w: \<open>response_writes (Simple_do_POST E r) = [''{"error": "Request failed: '' @ e @ ''"}'']\<close>
    by (simp add: t parts_obs Simple_error_writes)
  then show "length (response_writes (Simple_do_POST E r)) = 1"
    by simp
  assume "list_all json_plain e"
  then have "list_all json_plain (''Request failed: '' @ e)"
    by (simp add: json_plain_def)
  from json_error_value_plain [OF this]
  show "json_error_value (response_body (Simple_do_POST E r)) = Some (''Request failed: '' @ e)"
    by (simp add: response_body_def w)
  show \<open>response_body (Simple_do_POST E r) = ''{"error": "Request failed: '' @ e @ ''"}''\<close>
    by (simp add: response_body_def w)
next
  assume f: "urlopen E (CORS_request r n) = UrlopenException e"
  have t: "CORS_do_POST E r =
      read_post_data n @ [Urlopen (CORS_request r n)] @ CORS_proxy_error E e"
    by (simp add: CORS_do_POST_accepted [OF assms(1)] assms(2) f)
  show "response_status (CORS_do_POST E r) = [500]"
    by (simp add: t parts_obs CORS_error_obs)
  show "set (response_headers CORS_send_cors_headers) \<subseteq> set (response_headers (CORS_do_POST E r))"
    by (auto simp: t obs_append obs_Cons obs_Nil read_post_data_obs CORS_error_obs)
  show "(''Content-Type'', ''application/json'') \<in> set (response_headers (CORS_do_POST E r))"
    by (simp add: t parts_obs CORS_error_obs)
  have w: \<open>response_writes (CORS_do_POST E r) = [''{"error": "Proxy error: '' @ e @ ''"}'']\<close>
    by (simp add: t parts_obs CORS_error_writes)
  then show "length (response_writes (CORS_do_POST E r)) = 1"
    by simp
  assume "list_all json_plain e"
  then have "list_all json_plain (''Proxy error: '' @ e)"
    by (simp add: json_plain_def)
  from json_error_value_plain [OF this]
  show "json_error_value (response_body (CORS_do_POST E r)) = Some (''Proxy error: '' @ e)"
    by (simp add: response_body_def w)
  show \<open>response_body (CORS_do_POST E r) = ''{"error": "Proxy error: '' @ e @ ''"}''\<close>
    by (simp add: response_body_def w)
qed

theorem upstream_failure_response_witness:
  "startswith (path \<lparr>command = ''POST'', path = ''/api/dashscope/v1/chat'', headers = [], rfile = []\<rparr>)
     ''/api/dashscope/''
   \<and> content_length unreachable
        \<lparr>command = ''POST'', path = ''/api/dashscope/v1/chat'', headers = [], rfile = []\<rparr> = Inr 0
   \<and> requests_post unreachable (Simple_post_args
        \<lparr>command = ''POST'', path = ''/api/dashscope/v1/chat'', headers = [], rfile = []\<rparr> 0)
       = RequestException ''connection refused''
   \<and> urlopen unreachable (CORS_request
        \<lparr>command = ''POST'', path = ''/api/dashscope/v1/chat'', headers = [], rfile = []\<rparr> 0)
       = UrlopenException ''connection refused''
   \<and> list_all json_plain ''connection refused''
   \<and> response_status (Simple_do_POST unreachable
        \<lparr>command = ''POST'', path = ''/api/dashscope/v1/chat'', headers = [], rfile = []\<rparr>) = [500]
   \<and> json_error_value (response_body (Simple_do_POST unreachable
        \<lparr>command = ''POST'', path = ''/api/dashscope/v1/chat'', headers = [], rfile = []\<rparr>))
       = Some ''Request failed: connection refused''
   \<and> response_status (CORS_do_POST unreachable
        \<lparr>command = ''POST'', path = ''/api/dashscope/v1/chat'', headers = [], rfile = []\<rparr>) = [500]"
proof -
  let ?r = "\<lparr>command = ''POST'', path = ''/api/dashscope/v1/chat'', headers = [], rfile = []\<rparr>"
  have a: "startswith (path ?r) ''/api/dashscope/''"
    by (simp add: startswith_def)
  have b: "content_length unreachable ?r = Inr 0"
    by (simp add: content_length_def)
  have c: "requests_post unreachable (Simple_post_args ?r 0) = RequestException ''connection refused''"
    by (simp add: unreachable_def example_env_def)
  have d: "urlopen unreachable (CORS_request ?r 0) = UrlopenException ''connection refused''"
    by (simp add: unreachable_def example_env_def)
  have p: "list_all json_plain ''connection refused''"
    by (simp add: json_plain_def)
  from upstream_failure_response [OF a b, of "''connection refused''"] c d p
  have "response_status (Simple_do_POST unreachable ?r) = [500]"
    and "json_error_value (response_body (Simple_do_POST unreachable ?r)) =
          Some (''Request failed: '' @ ''connection refused'')"
    and "response_status (CORS_do_POST unreachable ?r) = [500]"
    by blast+
  with a b c d p show ?thesis
    by simp
qed

theorem proxy_error_counterexample:
  "response_status (handle_one_request CORSProxyHandler unreachable
      \<lparr>command = ''POST'', path = ''/api/dashscope/v1/chat'', headers = [], rfile = []\<rparr>) = [500]
   \<and> json_error_value (response_body (handle_one_request CORSProxyHandler unreachable
      \<lparr>command = ''POST'', path = ''/api/dashscope/v1/chat'', headers = [], rfile = []\<rparr>))
       = Some ''Proxy error: connection refused''
   \<and> \<not> prefix ''Request failed:'' ''Proxy error: connection refused''"
proof -
  let ?r = "\<lparr>command = ''POST'', path = ''/api/dashscope/v1/chat'', headers = [], rfile = []\<rparr>"
  have a: "startswith (path ?r) ''/api/dashscope/''"
    by (simp add: startswith_def)
  have t: "CORS_do_POST unreachable ?r =
      [Urlopen (CORS_request ?r 0)] @ CORS_proxy_error unreachable ''connection refused''"
    by (simp add: CORS_do_POST_accepted [OF a] content_length_def read_post_data_def
        unreachable_def example_env_def)
  have p: "list_all json_plain ''Proxy error: connection refused''"
    by (simp add: json_plain_def)
  have "response_body (handle_one_request CORSProxyHandler unreachable ?r) =
      ''{\"error\": \"'' @ ''Proxy error: connection refused'' @ ''\"}''"
    by (simp add: handle_one_request_def t response_body_def parts_obs CORS_error_writes)
  then have "json_error_value (response_body (handle_one_request CORSProxyHandler unreachable ?r))
      = Some ''Proxy error: connection refused''"
    by (simp only: json_error_value_plain [OF p])
  moreover have "response_status (handle_one_request CORSProxyHandler unreachable ?r) = [500]"
    by (simp add: handle_one_request_def t parts_obs CORS_error_obs)
  ultimately show ?thesis
    by simp
qed

section \<open>Streaming and buffered delivery\<close>

lemma sse_not_denied: "lower k = ''x-dashscope-sse'' \<Longrightarrow> lower k \<notin> set request_denylist"
  by (simp add: request_denylist_def)

lemma Simple_headers_loop_streaming:
  "snd (Simple_headers_loop hs (d, b)) = (b \<or> sse_enabled hs)"
proof (induction hs arbitrary: d b)
  case Nil
  then show ?case by (simp add: sse_enabled_def)
next
  case (Cons h hs)
  obtain k v where h: "h = (k, v)" by (cases h)
  show ?case
    using Cons.IH sse_not_denied [of k]
    by (auto simp: h sse_enabled_def)
qed

lemma stream_iff_sse: "stream (Simple_post_args r n) = sse_enabled (headers r)"
  using Simple_headers_loop_streaming [of "headers r" "[]" False]
  by (auto simp: Simple_post_args_def split: prod.splits)

lemma delivery_append: "delivery (a @ b) = delivery a @ delivery b"
  by (simp add: delivery_def)

lemma delivery_Cons: "delivery (e # t) = (if is_delivery e then [e] else []) @ delivery t"
  by (simp add: delivery_def)

lemma delivery_Nil: "delivery [] = []"
  by (simp add: delivery_def)

lemma delivery_Simple_copy_headers: "delivery (Simple_copy_headers hs) = []"
  by (induction hs rule: Simple_copy_headers.induct)
     (simp_all add: delivery_def send_header_def)

lemma delivery_Simple_stream: "delivery (Simple_stream cs err) = Simple_stream cs err"
  by (induction cs) (simp_all add: delivery_def)

lemma chunkwise_Simple_stream: "chunkwise cs (Simple_stream cs err)"
  by (induction cs) simp_all

lemma concat_nonempty: "concat (filter (\<lambda>c. c \<noteq> []) cs) = concat cs"
  by (induction cs) simp_all

lemma delivery_Simple_relay:
  "delivery (Simple_relay E s resp) =
     (if s then Simple_stream (iter_content resp) (iter_error resp) else [Write (content resp)])"
  by (simp add: Simple_relay_def delivery_append delivery_Cons delivery_Nil send_response_def
      Simple_send_cors_headers_def send_header_def end_headers_def delivery_Simple_copy_headers
      delivery_Simple_stream)

lemma response_writes_Simple_relay:
  "response_writes (Simple_relay E s resp) =
     (if s then filter (\<lambda>c. c \<noteq> []) (iter_content resp) else [content resp])"
  by (simp add: Simple_relay_def parts_obs)

text \<open>
  Claim C2, for SimpleProxyHandler, the handler that streams. Let an accepted POST be
  forwarded and answered by the upstream. If some inbound header is named X-DashScope-SSE,
  in any case, and has the value \<^verbatim>\<open>enable\<close>, the upstream is asked for a stream, the
  writes to the caller are the non-empty chunks of the upstream in the order received, each
  written and flushed before the next chunk is taken, and together they are the bytes the
  upstream delivered. Without such a header the upstream is not asked for a stream and the
  body is delivered in one write, equal to the upstream body.
\<close>

theorem streaming_delivery:
  assumes "startswith (path r) ''/api/dashscope/''"
    and "content_length E r = Inr n"
    and "requests_post E (Simple_post_args r n) = Response resp"
  shows "(sse_enabled (headers r) \<longrightarrow>
            stream (Simple_post_args r n)
          \<and> response_writes (Simple_do_POST E r) = filter (\<lambda>c. c \<noteq> []) (iter_content resp)
          \<and> chunkwise (iter_content resp) (delivery (Simple_do_POST E r))
          \<and> response_body (Simple_do_POST E r) = concat (iter_content resp))
       \<and> (\<not> sse_enabled (headers r) \<longrightarrow>
            \<not> stream (Simple_post_args r n)
          \<and> response_writes (Simple_do_POST E r) = [content resp]
          \<and> delivery (Simple_do_POST E r) = [Write (content resp)]
          \<and> response_body (Simple_do_POST E r) = content resp)"
proof -
  have t: "Simple_do_POST E r =
      read_post_data n @ [RequestsPost (Simple_post_args r n)] @
      Simple_relay E (sse_enabled (headers r)) resp"
    by (simp add: Simple_do_POST_accepted [OF assms(1)] assms(2,3) stream_iff_sse)
  have w: "response_writes (Simple_do_POST E r) =
      (if sse_enabled (headers r) then filter (\<lambda>c. c \<noteq> []) (iter_content resp)
       else [content resp])"
    by (simp add: t parts_obs response_writes_Simple_relay)
  have d: "delivery (Simple_do_POST E r) =
      (if sse_enabled (headers r) then Simple_stream (iter_content resp) (iter_error resp)
       else [Write (content resp)])"
    by (simp add: t delivery_append delivery_Cons delivery_Nil delivery_Simple_relay
        read_post_data_def)
  show ?thesis
    by (simp add: stream_iff_sse w d response_body_def concat_nonempty chunkwise_Simple_stream)
qed

theorem streaming_delivery_witness:
  "startswith (path \<lparr>command = ''POST'', path = ''/api/dashscope/v1/chat'',
       headers = [(''Content-Length'', ''2''), (''X-DashScope-SSE'', ''enable'')], rfile = ''{}''\<rparr>)
     ''/api/dashscope/''
   \<and> content_length answering \<lparr>command = ''POST'', path = ''/api/dashscope/v1/chat'',
       headers = [(''Content-Length'', ''2''), (''X-DashScope-SSE'', ''enable'')], rfile = ''{}''\<rparr>
       = Inr 2
   \<and> sse_enabled [(''Content-Length'', ''2''), (''X-DashScope-SSE'', ''enable'')]
   \<and> response_writes (Simple_do_POST answering \<lparr>command = ''POST'', path = ''/api/dashscope/v1/chat'',
       headers = [(''Content-Length'', ''2''), (''X-DashScope-SSE'', ''enable'')], rfile = ''{}''\<rparr>)
       = [''data: '', ''hello'']
   \<and> response_body (Simple_do_POST answering \<lparr>command = ''POST'', path = ''/api/dashscope/v1/chat'',
       headers = [(''Content-Length'', ''2''), (''X-DashScope-SSE'', ''enable'')], rfile = ''{}''\<rparr>)
       = ''data: hello''
   \<and> \<not> sse_enabled [(''Content-Length'', ''2''), (''X-DashScope-SSE'', ''Enable'')]
   \<and> response_writes (Simple_do_POST answering \<lparr>command = ''POST'', path = ''/api/dashscope/v1/chat'',
       headers = [(''Content-Length'', ''2''), (''X-DashScope-SSE'', ''Enable'')], rfile = ''{}''\<rparr>)
       = [''data: hello'']"
proof -
  let ?on = "\<lparr>command = ''POST'', path = ''/api/dashscope/v1/chat'',
       headers = [(''Content-Length'', ''2''), (''X-DashScope-SSE'', ''enable'')], rfile = ''{}''\<rparr>"
  let ?off = "\<lparr>command = ''POST'', path = ''/api/dashscope/v1/chat'',
       headers = [(''Content-Length'', ''2''), (''X-DashScope-SSE'', ''Enable'')], rfile = ''{}''\<rparr>"
  have l: "lower ''Content-Length'' = ''content-length''"
    "lower ''X-DashScope-SSE'' = ''x-dashscope-sse''"
    by (simp_all add: lower_eval)
  have two: "digits_int ''2'' = Inr 2"
    by (simp add: digits_int_def is_digit_def digit_value_def)
  have a: "startswith (path ?on) ''/api/dashscope/''" "startswith (path ?off) ''/api/dashscope/''"
    by (simp_all add: startswith_def)
  have b: "content_length answering ?on = Inr 2" "content_length answering ?off = Inr 2"
    by (simp_all add: content_length_def l two answering_def example_env_def)
  have c: "requests_post answering (Simple_post_args ?on 2) = Response sse_response"
    "requests_post answering (Simple_post_args ?off 2) = Response sse_response"
    by (simp_all add: answering_def example_env_def)
  have on: "sse_enabled (headers ?on)" and off: "\<not> sse_enabled (headers ?off)"
    by (simp_all add: sse_enabled_def l)
  from streaming_delivery [OF a(1) b(1) c(1)] on
  have 1: "response_writes (Simple_do_POST answering ?on) = [''data: '', ''hello'']"
    "response_body (Simple_do_POST answering ?on) = ''data: hello''"
    by (simp_all add: sse_response_def)
  from streaming_delivery [OF a(2) b(2) c(2)] off
  have 2: "response_writes (Simple_do_POST answering ?off) = [''data: hello'']"
    by (simp add: sse_response_def)
  from a b on off 1 2 show ?thesis
    by simp
qed

section \<open>Headers of the outbound request\<close>

lemma py_lower_char_idem: "py_lower_char (py_lower_char c) = py_lower_char c"
  using nat_of_char_less_256 [of c]
  by (auto simp: py_lower_char_def Let_def)

lemma py_lower_upper: "py_lower_char (py_upper_char c) = py_lower_char c"
  using nat_of_char_less_256 [of c]
  by (auto simp: py_lower_char_def py_upper_char_def Let_def)

lemma lower_idem: "lower (lower s) = lower s"
  by (simp add: lower_def py_lower_char_idem)

lemma lower_capitalize: "lower (capitalize s) = lower s"
  by (cases s) (simp_all add: lower_def py_lower_upper py_lower_char_idem)

lemma update_fresh: "k \<notin> fst ` set d \<Longrightarrow> AList.update k v d = d @ [(k, v)]"
  by (induction d) auto

lemma assign_all_distinct:
  "distinct (map fst (d @ kvs)) \<Longrightarrow> assign_all kvs d = d @ kvs"
proof (induction kvs arbitrary: d)
  case Nil
  then show ?case by simp
next
  case (Cons kv kvs)
  obtain k v where kv: "kv = (k, v)" by (cases kv)
  from Cons.prems have fresh: "k \<notin> fst ` set d"
    by (auto simp: kv)
  from Cons.prems have "distinct (map fst ((d @ [(k, v)]) @ kvs))"
    by (simp add: kv)
  from Cons.IH [OF this] show ?case
    by (simp add: kv update_fresh [OF fresh])
qed

lemma set_update_subset: "set (AList.update k v d) \<subseteq> insert (k, v) (set d)"
  by (induction d) auto

lemma set_assign_all: "set (assign_all kvs d) \<subseteq> set d \<union> set kvs"
proof (induction kvs arbitrary: d)
  case Nil
  then show ?case by simp
next
  case (Cons kv kvs)
  obtain k v where kv: "kv = (k, v)" by (cases kv)
  from Cons.IH [of "AList.update k v d"] set_update_subset [of k v d]
  show ?case by (auto simp: kv)
qed

lemma map_of_assign_all:
  "map_of (assign_all kvs d) k =
     (case map_of (rev kvs) k of Some v \<Rightarrow> Some v | None \<Rightarrow> map_of d k)"
proof (induction kvs arbitrary: d)
  case Nil
  then show ?case by simp
next
  case (Cons kv kvs)
  obtain k' v' where kv: "kv = (k', v')" by (cases kv)
  show ?case
    by (simp add: kv Cons.IH update_conv' map_add_def split: option.splits)
qed

lemma Simple_headers_loop_dict:
  "fst (Simple_headers_loop hs (d, b)) = assign_all (filter forwarded hs) d"
proof (induction hs arbitrary: d b)
  case Nil
  then show ?case by simp
next
  case (Cons h hs)
  obtain k v where h: "h = (k, v)" by (cases h)
  show ?case
    by (simp add: h Cons.IH forwarded_def)
qed

lemma post_headers_dict:
  "post_headers (Simple_post_args r n) = assign_all (filter forwarded (headers r)) []"
  using Simple_headers_loop_dict [of "headers r" "[]" False]
  by (auto simp: Simple_post_args_def split: prod.splits)

lemma CORS_headers_loop_dict:
  "CORS_headers_loop hs req =
     req\<lparr>req_headers :=
       assign_all (map (\<lambda>h. (capitalize (fst h), snd h)) (filter forwarded hs)) (req_headers req)\<rparr>"
proof (induction hs arbitrary: req)
  case Nil
  then show ?case by simp
next
  case (Cons h hs)
  obtain k v where h: "h = (k, v)" by (cases h)
  show ?case
    by (simp add: h Cons.IH forwarded_def add_header_def)
qed

lemma req_headers_dict:
  "req_headers (CORS_request r n) =
     assign_all (map (\<lambda>h. (capitalize (fst h), snd h)) (filter forwarded (headers r))) []"
  by (simp add: CORS_request_def CORS_headers_loop_dict)

lemma CORS_request_target:
  "full_url (CORS_request r n) = target_url (path r)"
  "req_data (CORS_request r n) = post_data r n"
  by (simp_all add: CORS_request_def CORS_headers_loop_dict)

lemma Simple_post_args_target:
  "url (Simple_post_args r n) = target_url (path r)"
  "data (Simple_post_args r n) = post_data r n"
  by (simp_all add: Simple_post_args_def split: prod.splits)

lemma Simple_upstream_calls:
  "upstream_calls (Simple_do_POST E r) =
     (if startswith (path r) ''/api/dashscope/''
      then (case content_length E r of
              Inl e \<Rightarrow> []
            | Inr n \<Rightarrow> [RequestsPost (Simple_post_args r n)])
      else [])"
  by (simp add: Simple_do_POST_def parts_obs Simple_error_obs Simple_relay_obs
      split: sum.splits requests_result.splits)

lemma CORS_upstream_calls:
  "upstream_calls (CORS_do_POST E r) =
     (if startswith (path r) ''/api/dashscope/''
      then (case content_length E r of
              Inl e \<Rightarrow> []
            | Inr n \<Rightarrow> [Urlopen (CORS_request r n)])
      else [])"
  by (simp add: CORS_do_POST_def parts_obs CORS_error_obs CORS_relay_obs
      split: sum.splits urlopen_result.splits)

lemma handle_upstream_calls:
  "upstream_calls (handle_one_request h E r) =
     (if command r = ''POST'' then upstream_calls (do_POST h E r) else [])"
  by (cases h)
     (simp_all add: handle_one_request_def parts_obs Simple_do_OPTIONS_def CORS_do_OPTIONS_def)

lemma Simple_call_args:
  assumes "RequestsPost a \<in> set (handle_one_request SimpleProxyHandler E r)"
  shows "\<exists>n. a = Simple_post_args r n"
proof -
  from assms have "RequestsPost a \<in> set (upstream_calls (handle_one_request SimpleProxyHandler E r))"
    by (simp add: upstream_calls_def)
  then have 1: "RequestsPost a \<in> set (upstream_calls (Simple_do_POST E r))"
    by (cases "command r = ''POST''") (simp_all add: handle_upstream_calls)
  show ?thesis
  proof (cases "content_length E r")
    case (Inl e)
    with 1 show ?thesis
      by (cases "startswith (path r) ''/api/dashscope/''") (simp_all add: Simple_upstream_calls)
  next
    case (Inr n)
    with 1 show ?thesis
      by (cases "startswith (path r) ''/api/dashscope/''") (auto simp: Simple_upstream_calls)
  qed
qed

lemma CORS_call_args:
  assumes "Urlopen q \<in> set (handle_one_request CORSProxyHandler E r)"
  shows "\<exists>n. q = CORS_request r n"
proof -
  from assms have "Urlopen q \<in> set (upstream_calls (handle_one_request CORSProxyHandler E r))"
    by (simp add: upstream_calls_def)
  then have 1: "Urlopen q \<in> set (upstream_calls (CORS_do_POST E r))"
    by (cases "command r = ''POST''") (simp_all add: handle_upstream_calls)
  show ?thesis
  proof (cases "content_length E r")
    case (Inl e)
    with 1 show ?thesis
      by (cases "startswith (path r) ''/api/dashscope/''") (simp_all add: CORS_upstream_calls)
  next
    case (Inr n)
    with 1 show ?thesis
      by (cases "startswith (path r) ''/api/dashscope/''") (auto simp: CORS_upstream_calls)
  qed
qed

lemma distinct_capitalized:
  assumes "distinct (map (lower \<circ> fst) hs)"
  shows "distinct (map fst (map (\<lambda>h. (capitalize (fst h), snd h)) (filter forwarded hs)))"
proof -
  have "distinct (map (lower \<circ> fst) (filter forwarded hs))"
    using assms by (rule distinct_map_filter)
  then have "distinct (map lower (map (capitalize \<circ> fst) (filter forwarded hs)))"
    by (simp add: comp_def lower_capitalize)
  then have "distinct (map (capitalize \<circ> fst) (filter forwarded hs))"
    using distinct_map [of lower "map (capitalize \<circ> fst) (filter forwarded hs)"] by blast
  then show ?thesis
    by (simp add: comp_def)
qed

text \<open>
  Claim C5, as the code has it. On the outbound request of either handler no header has a
  lowercased name among host, origin, referer and content-length, and every outbound header
  carries the value of an inbound header of that name (CORSProxyHandler stores it under the
  capitalised name, as \<^verbatim>\<open>add_header\<close> of urllib does). When no inbound header name is
  repeated (for CORSProxyHandler: without regard to case), the outbound headers are exactly
  the inbound headers outside the denylist, values unchanged and in order. Of inbound headers
  with one and the same name (for CORSProxyHandler: the same capitalised name), only the
  value of the last is forwarded.
\<close>

theorem request_header_filtering:
  assumes "RequestsPost a \<in> set (handle_one_request SimpleProxyHandler E r)"
    and "Urlopen q \<in> set (handle_one_request CORSProxyHandler E r)"
  shows "(\<forall>h \<in> set (post_headers a).
            lower (fst h) \<notin> set [''host'', ''origin'', ''referer'', ''content-length'']
          \<and> h \<in> set (headers r))
       \<and> (\<forall>h \<in> set (req_headers q).
            lower (fst h) \<notin> set [''host'', ''origin'', ''referer'', ''content-length'']
          \<and> (\<exists>h' \<in> set (headers r). fst h = capitalize (fst h') \<and> snd h = snd h'))
       \<and> (distinct (map fst (headers r)) \<longrightarrow>
            post_headers a =
              filter (\<lambda>h. lower (fst h) \<notin> set [''host'', ''origin'', ''referer'', ''content-length''])
                (headers r))
       \<and> (distinct (map (lower \<circ> fst) (headers r)) \<longrightarrow>
            req_headers q =
              map (\<lambda>h. (capitalize (fst h), snd h))
                (filter (\<lambda>h. lower (fst h) \<notin> set [''host'', ''origin'', ''referer'', ''content-length''])
                   (headers r)))
       \<and> (\<forall>k. map_of (post_headers a) k =
            (if lower k \<in> set [''host'', ''origin'', ''referer'', ''content-length''] then None
             else map_of (rev (headers r)) k))
       \<and> (\<forall>k. map_of (req_headers q) k =
            map_of (rev (map (\<lambda>h. (capitalize (fst h), snd h))
              (filter (\<lambda>h. lower (fst h) \<notin> set [''host'', ''origin'', ''referer'', ''content-length''])
                 (headers r)))) k)"
proof -
  have fw: "forwarded = (\<lambda>h. lower (fst h) \<notin> set [''host'', ''origin'', ''referer'', ''content-length''])"
    by (simp add: forwarded_def request_denylist_def fun_eq_iff)
  from Simple_call_args [OF assms(1)] obtain n where a: "a = Simple_post_args r n"
    by blast
  from CORS_call_args [OF assms(2)] obtain m where q: "q = CORS_request r m"
    by blast
  have pa: "post_headers a = assign_all (filter forwarded (headers r)) []"
    by (simp add: a post_headers_dict)
  have rq: "req_headers q =
      assign_all (map (\<lambda>h. (capitalize (fst h), snd h)) (filter forwarded (headers r))) []"
    by (simp add: q req_headers_dict)
  have 1: "\<forall>h \<in> set (post_headers a). forwarded h \<and> h \<in> set (headers r)"
    using set_assign_all [of "filter forwarded (headers r)" "[]"]
    by (auto simp: pa)
  have 2: "\<forall>h \<in> set (req_headers q). forwarded h
      \<and> (\<exists>h' \<in> set (headers r). fst h = capitalize (fst h') \<and> snd h = snd h')"
    using set_assign_all [of "map (\<lambda>h. (capitalize (fst h), snd h)) (filter forwarded (headers r))" "[]"]
    by (fastforce simp: rq forwarded_def lower_capitalize)
  have 3: "distinct (map fst (headers r)) \<longrightarrow> post_headers a = filter forwarded (headers r)"
    using assign_all_distinct [of "[]" "filter forwarded (headers r)"]
    by (simp add: pa distinct_map_filter)
  have 4: "distinct (map (lower \<circ> fst) (headers r)) \<longrightarrow>
      req_headers q = map (\<lambda>h. (capitalize (fst h), snd h)) (filter forwarded (headers r))"
    using assign_all_distinct [of "[]" "map (\<lambda>h. (capitalize (fst h), snd h)) (filter forwarded (headers r))"]
      distinct_capitalized [of "headers r"]
    by (simp add: rq)
  have mf: "map_of (rev (filter forwarded hs)) k =
      (if forwarded (k, v0) then map_of (rev hs) k else None)" for hs k v0
    by (induction hs) (auto simp: forwarded_def map_add_def split: option.splits)
  have 6: "\<forall>k. map_of (req_headers q) k =
      map_of (rev (map (\<lambda>h. (capitalize (fst h), snd h)) (filter forwarded (headers r)))) k"
    by (simp add: rq map_of_assign_all split: option.splits)
  have 5: "\<forall>k. map_of (post_headers a) k =
      (if forwarded (k, []) then map_of (rev (headers r)) k else None)"
    by (auto simp: pa map_of_assign_all mf [where ?v0.0 = "[]"] split: option.splits)
  show ?thesis
  proof (intro conjI)
    show "\<forall>h \<in> set (post_headers a).
        lower (fst h) \<notin> set [''host'', ''origin'', ''referer'', ''content-length'']
        \<and> h \<in> set (headers r)"
      using 1 by (simp add: fw)
    show "\<forall>h \<in> set (req_headers q).
        lower (fst h) \<notin> set [''host'', ''origin'', ''referer'', ''content-length'']
        \<and> (\<exists>h' \<in> set (headers r). fst h = capitalize (fst h') \<and> snd h = snd h')"
      using 2 by (simp add: fw)
    show "distinct (map fst (headers r)) \<longrightarrow>
        post_headers a =
          filter (\<lambda>h. lower (fst h) \<notin> set [''host'', ''origin'', ''referer'', ''content-length''])
            (headers r)"
      using 3 by (simp only: fw)
    show "distinct (map (lower \<circ> fst) (headers r)) \<longrightarrow>
        req_headers q =
          map (\<lambda>h. (capitalize (fst h), snd h))
            (filter (\<lambda>h. lower (fst h) \<notin> set [''host'', ''origin'', ''referer'', ''content-length''])
               (headers r))"
      using 4 by (simp only: fw)
    show "\<forall>k. map_of (post_headers a) k =
        (if lower k \<in> set [''host'', ''origin'', ''referer'', ''content-length''] then None
         else map_of (rev (headers r)) k)"
      using 5 by (simp add: fw)
    show "\<forall>k. map_of (req_headers q) k =
        map_of (rev (map (\<lambda>h. (capitalize (fst h), snd h))
          (filter (\<lambda>h. lower (fst h) \<notin> set [''host'', ''origin'', ''referer'', ''content-length''])
             (headers r)))) k"
      using 6 by (simp add: fw)
  qed
qed

theorem request_header_filtering_witness:
  "RequestsPost (Simple_post_args
       \<lparr>command = ''POST'', path = ''/api/dashscope/v1/chat'',
        headers = [(''Host'', ''localhost:3001''), (''authorization'', ''Bearer k''),
                   (''Content-Length'', ''2'')], rfile = ''{}''\<rparr> 2)
     \<in> set (handle_one_request SimpleProxyHandler answering
       \<lparr>command = ''POST'', path = ''/api/dashscope/v1/chat'',
        headers = [(''Host'', ''localhost:3001''), (''authorization'', ''Bearer k''),
                   (''Content-Length'', ''2'')], rfile = ''{}''\<rparr>)
   \<and> Urlopen (CORS_request
       \<lparr>command = ''POST'', path = ''/api/dashscope/v1/chat'',
        headers = [(''Host'', ''localhost:3001''), (''authorization'', ''Bearer k''),
                   (''Content-Length'', ''2'')], rfile = ''{}''\<rparr> 2)
     \<in> set (handle_one_request CORSProxyHandler answering
       \<lparr>command = ''POST'', path = ''/api/dashscope/v1/chat'',
        headers = [(''Host'', ''localhost:3001''), (''authorization'', ''Bearer k''),
                   (''Content-Length'', ''2'')], rfile = ''{}''\<rparr>)
   \<and> distinct (map (lower \<circ> fst) [(''Host'', ''localhost:3001''), (''authorization'', ''Bearer k''),
                   (''Content-Length'', ''2'')])
   \<and> post_headers (Simple_post_args
       \<lparr>command = ''POST'', path = ''/api/dashscope/v1/chat'',
        headers = [(''Host'', ''localhost:3001''), (''authorization'', ''Bearer k''),
                   (''Content-Length'', ''2'')], rfile = ''{}''\<rparr> 2)
       = [(''authorization'', ''Bearer k'')]
   \<and> req_headers (CORS_request
       \<lparr>command = ''POST'', path = ''/api/dashscope/v1/chat'',
        headers = [(''Host'', ''localhost:3001''), (''authorization'', ''Bearer k''),
                   (''Content-Length'', ''2'')], rfile = ''{}''\<rparr> 2)
       = [(''Authorization'', ''Bearer k'')]"
proof -
  let ?r = "\<lparr>command = ''POST'', path = ''/api/dashscope/v1/chat'',
        headers = [(''Host'', ''localhost:3001''), (''authorization'', ''Bearer k''),
                   (''Content-Length'', ''2'')], rfile = ''{}''\<rparr>"
  have l: "lower ''Host'' = ''host''" "lower ''authorization'' = ''authorization''"
    "lower ''Content-Length'' = ''content-length''"
    by (simp_all add: lower_eval)
  have two: "digits_int ''2'' = Inr 2"
    by (simp add: digits_int_def is_digit_def digit_value_def)
  have b: "content_length answering ?r = Inr 2"
    by (simp add: content_length_def l two answering_def example_env_def)
  have s: "RequestsPost (Simple_post_args ?r 2) \<in> set (handle_one_request SimpleProxyHandler answering ?r)"
    by (simp add: handle_one_request_def Simple_do_POST_def startswith_def b)
  have c: "Urlopen (CORS_request ?r 2) \<in> set (handle_one_request CORSProxyHandler answering ?r)"
    by (simp add: handle_one_request_def CORS_do_POST_def startswith_def b)
  have d: "distinct (map (lower \<circ> fst) (headers ?r))" "distinct (map fst (headers ?r))"
    by (simp_all add: l)
  from request_header_filtering [OF s c] d
  have "post_headers (Simple_post_args ?r 2) =
          filter (\<lambda>h. lower (fst h) \<notin> set [''host'', ''origin'', ''referer'', ''content-length''])
            (headers ?r)"
    and "req_headers (CORS_request ?r 2) =
          map (\<lambda>h. (capitalize (fst h), snd h))
            (filter (\<lambda>h. lower (fst h) \<notin> set [''host'', ''origin'', ''referer'', ''content-length''])
               (headers ?r))"
    by blast+
  then have "post_headers (Simple_post_args ?r 2) = [(''authorization'', ''Bearer k'')]"
    and "req_headers (CORS_request ?r 2) = [(''Authorization'', ''Bearer k'')]"
    by (simp_all add: lower_eval)
  with s c d(1) show ?thesis
    by simp
qed

theorem repeated_header_counterexample:
  "upstream_calls (handle_one_request SimpleProxyHandler answering
      \<lparr>command = ''POST'', path = ''/api/dashscope/v1/chat'',
       headers = [(''X-Trace'', ''1''), (''X-Trace'', ''2'')], rfile = []\<rparr>) =
     [RequestsPost \<lparr>url = ''https://dashscope.aliyuncs.com/v1/chat'', data = [],
        post_headers = [(''X-Trace'', ''2'')], stream = False\<rparr>]
   \<and> lower ''X-Trace'' \<notin> set [''host'', ''origin'', ''referer'', ''content-length'']"
proof -
  let ?r = "\<lparr>command = ''POST'', path = ''/api/dashscope/v1/chat'',
       headers = [(''X-Trace'', ''1''), (''X-Trace'', ''2'')], rfile = []\<rparr>"
  have l: "lower ''X-Trace'' = ''x-trace''" "lower ''Content-Length'' = ''content-length''"
    by (simp_all add: lower_eval)
  have b: "content_length answering ?r = Inr 0"
    by (simp add: content_length_def l)
  have u: "target_url ''/api/dashscope/v1/chat'' = ''https://dashscope.aliyuncs.com/v1/chat''"
    by (simp add: target_url_def target_path_def replace_def)
  have "Simple_post_args ?r 0 =
      \<lparr>url = ''https://dashscope.aliyuncs.com/v1/chat'', data = [],
       post_headers = [(''X-Trace'', ''2'')], stream = False\<rparr>"
    by (simp add: Simple_post_args_def u post_data_def l request_denylist_def)
  then show ?thesis
    by (simp add: handle_upstream_calls Simple_upstream_calls startswith_def b l)
qed

section \<open>The target URL\<close>

lemma replace_scan_absent:
  "\<not> sublist old s \<Longrightarrow> replace_scan old new s = s"
proof (induction old new s rule: replace_scan.induct)
  case (1 old new)
  then show ?case by simp
next
  case (2 old new c cs)
  from "2.prems" have np: "\<not> prefix old (c # cs)"
    using prefix_imp_sublist by blast
  from "2.prems" have "\<not> sublist old cs"
    by (meson sublist_Cons_right)
  with 2 np show ?case
    by simp
qed

text \<open>The rewrite is right whenever the path has the prefix only at its start.\<close>

lemma target_url_single_prefix:
  assumes "\<not> sublist ''/api/dashscope'' rest"
  shows "target_url (''/api/dashscope'' @ rest) = ''https://dashscope.aliyuncs.com'' @ rest"
  using replace_scan_absent [OF assms, of "[]"]
  by (simp add: target_url_def target_path_def replace_def)

lemma target_url_example:
  "target_url ''/api/dashscope/v1/foo?x=1'' = ''https://dashscope.aliyuncs.com/v1/foo?x=1''"
  by (simp add: target_url_def target_path_def replace_def)

text \<open>
  Claim C3 at a path that holds the prefix a second time. The request
  \<^verbatim>\<open>POST /api/dashscope/v1/foo?next=/api/dashscope/bar\<close> is accepted, and both handlers
  send it to \<^verbatim>\<open>https://dashscope.aliyuncs.com/v1/foo?next=/bar\<close>: \<^verbatim>\<open>str.replace\<close>
  removes every occurrence of \<^verbatim>\<open>/api/dashscope\<close>, not only the prefix, so the query
  string is not preserved.
\<close>

theorem target_url_inner_prefix_removed:
  "startswith ''/api/dashscope/v1/foo?next=/api/dashscope/bar'' ''/api/dashscope/''
   \<and> upstream_targets (handle_one_request SimpleProxyHandler answering
        \<lparr>command = ''POST'', path = ''/api/dashscope/v1/foo?next=/api/dashscope/bar'',
         headers = [], rfile = []\<rparr>)
       = [(''https://dashscope.aliyuncs.com/v1/foo?next=/bar'', [])]
   \<and> upstream_targets (handle_one_request CORSProxyHandler answering
        \<lparr>command = ''POST'', path = ''/api/dashscope/v1/foo?next=/api/dashscope/bar'',
         headers = [], rfile = []\<rparr>)
       = [(''https://dashscope.aliyuncs.com/v1/foo?next=/bar'', [])]"
proof -
  let ?r = "\<lparr>command = ''POST'', path = ''/api/dashscope/v1/foo?next=/api/dashscope/bar'',
         headers = [], rfile = []\<rparr>"
  have a: "startswith (path ?r) ''/api/dashscope/''"
    by (simp add: startswith_def)
  have u: "target_url (path ?r) = ''https://dashscope.aliyuncs.com/v1/foo?next=/bar''"
    by (simp add: target_url_def target_path_def replace_def)
  have b: "content_length answering ?r = Inr 0"
    by (simp add: content_length_def)
  have s: "upstream_calls (handle_one_request SimpleProxyHandler answering ?r) =
      [RequestsPost (Simple_post_args ?r 0)]"
    using a by (simp add: handle_upstream_calls Simple_upstream_calls b)
  have c: "upstream_calls (handle_one_request CORSProxyHandler answering ?r) =
      [Urlopen (CORS_request ?r 0)]"
    using a by (simp add: handle_upstream_calls CORS_upstream_calls b)
  have t: "upstream_targets t = concat (map upstream_target (upstream_calls t))" for t
    by (induction t) (auto simp: upstream_targets_def upstream_calls_def elim: is_upstream.elims)
  have "upstream_targets (handle_one_request SimpleProxyHandler answering ?r) =
      [(''https://dashscope.aliyuncs.com/v1/foo?next=/bar'', [])]"
    using u by (simp add: t s Simple_post_args_target post_data_def)
  moreover have "upstream_targets (handle_one_request CORSProxyHandler answering ?r) =
      [(''https://dashscope.aliyuncs.com/v1/foo?next=/bar'', [])]"
    using u by (simp add: t c CORS_request_target post_data_def)
  ultimately show ?thesis
    using a by simp
qed

section \<open>The two handlers side by side\<close>

lemma upstream_targets_calls:
  "upstream_targets t = concat (map upstream_target (upstream_calls t))"
  by (induction t) (auto simp: upstream_targets_def upstream_calls_def elim: is_upstream.elims)

lemma Simple_upstream_targets:
  "upstream_targets (Simple_do_POST E r) =
     (if startswith (path r) ''/api/dashscope/''
      then (case content_length E r of
              Inl e \<Rightarrow> []
            | Inr n \<Rightarrow> [(target_url (path r), post_data r n)])
      else [])"
  by (simp add: upstream_targets_calls Simple_upstream_calls Simple_post_args_target
      split: sum.splits)

lemma CORS_upstream_targets:
  "upstream_targets (CORS_do_POST E r) =
     (if startswith (path r) ''/api/dashscope/''
      then (case content_length E r of
              Inl e \<Rightarrow> []
            | Inr n \<Rightarrow> [(target_url (path r), post_data r n)])
      else [])"
  by (simp add: upstream_targets_calls CORS_upstream_calls CORS_request_target
      split: sum.splits)

lemma handle_upstream_targets:
  "upstream_targets (handle_one_request h E r) =
     (if command r = ''POST'' then upstream_targets (do_POST h E r) else [])"
  by (simp add: upstream_targets_calls handle_upstream_calls)

lemma body_reads_read_post_data: "body_reads (read_post_data n) = read_post_data n"
  by (simp add: read_post_data_def obs_defs)

lemma Simple_body_reads:
  "body_reads (Simple_do_POST E r) =
     (if startswith (path r) ''/api/dashscope/''
      then (case content_length E r of Inl e \<Rightarrow> [] | Inr n \<Rightarrow> read_post_data n)
      else [])"
  by (simp add: Simple_do_POST_def parts_obs Simple_error_obs Simple_relay_obs
      body_reads_read_post_data split: sum.splits requests_result.splits)

lemma CORS_body_reads:
  "body_reads (CORS_do_POST E r) =
     (if startswith (path r) ''/api/dashscope/''
      then (case content_length E r of Inl e \<Rightarrow> [] | Inr n \<Rightarrow> read_post_data n)
      else [])"
  by (simp add: CORS_do_POST_def parts_obs CORS_error_obs CORS_relay_obs
      body_reads_read_post_data split: sum.splits urlopen_result.splits)

lemma handle_body_reads:
  "body_reads (handle_one_request h E r) =
     (if command r = ''POST'' then body_reads (do_POST h E r) else [])"
  by (cases h)
     (simp_all add: handle_one_request_def parts_obs Simple_do_OPTIONS_def CORS_do_OPTIONS_def)

lemma without_allow_headers_append:
  "without_allow_headers (a @ b) = without_allow_headers a @ without_allow_headers b"
  by (simp add: without_allow_headers_def)

lemma without_allow_headers_cors:
  "without_allow_headers Simple_send_cors_headers = without_allow_headers CORS_send_cors_headers"
  by (simp add: without_allow_headers_def Simple_send_cors_headers_def CORS_send_cors_headers_def
      send_header_def)

lemma without_allow_headers_OPTIONS:
  "without_allow_headers (Simple_do_OPTIONS E) = without_allow_headers (CORS_do_OPTIONS E)"
  by (simp add: Simple_do_OPTIONS_def CORS_do_OPTIONS_def without_allow_headers_append
      without_allow_headers_cors)

lemma without_allow_headers_proxy_error:
  "without_allow_headers (Simple_proxy_error E e) = without_allow_headers (CORS_proxy_error E e)"
  by (simp add: Simple_proxy_error_def CORS_proxy_error_def without_allow_headers_append
      without_allow_headers_cors)

lemma not_forwarded_same:
  assumes "upstream_targets (handle_one_request SimpleProxyHandler E r) = []"
  shows "without_allow_headers (handle_one_request SimpleProxyHandler E r) =
         without_allow_headers (handle_one_request CORSProxyHandler E r)"
proof (cases "command r = ''POST''")
  case False
  then show ?thesis
    by (simp add: handle_one_request_def without_allow_headers_append
        without_allow_headers_OPTIONS)
next
  case post: True
  show ?thesis
  proof (cases "startswith (path r) ''/api/dashscope/''")
    case False
    with post show ?thesis
      by (simp add: rejected_post)
  next
    case acc: True
    show ?thesis
    proof (cases "content_length E r")
      case (Inl e)
      with post acc show ?thesis
        by (simp add: handle_one_request_def Simple_do_POST_def CORS_do_POST_def
            without_allow_headers_append without_allow_headers_proxy_error)
    next
      case (Inr n)
      with assms post acc show ?thesis
        by (simp add: handle_upstream_targets Simple_upstream_targets)
    qed
  qed
qed

lemma distinct_lower_names:
  assumes "distinct (map (lower \<circ> fst) hs)"
  shows "distinct (map fst hs)"
proof -
  from assms have "distinct (map lower (map fst hs))"
    by simp
  then show ?thesis
    using distinct_map [of lower "map fst hs"] by blast
qed

text \<open>
  Claim C8, as the code has it. The two handlers take the same decisions up to the call of
  the upstream: they call it for the same requests, with the same URL and the same data,
  after the same read of the request body; when no inbound header name is repeated, without
  regard to case, CORSProxyHandler sends the headers SimpleProxyHandler sends, each under
  its capitalised name. When a request is not forwarded (OPTIONS, a command without a
  method, a path mismatch, a Content-Length that is not a number), the two answers are the
  same event for event except for the header Access-Control-Allow-Headers. Nothing is said
  about the answers to forwarded requests, where the handlers differ.
\<close>

theorem handlers_agree:
  "upstream_targets (handle_one_request SimpleProxyHandler E r) =
     upstream_targets (handle_one_request CORSProxyHandler E r)
   \<and> body_reads (handle_one_request SimpleProxyHandler E r) =
     body_reads (handle_one_request CORSProxyHandler E r)
   \<and> (distinct (map (lower \<circ> fst) (headers r)) \<longrightarrow>
        req_headers (CORS_request r n) =
          map (\<lambda>h. (capitalize (fst h), snd h)) (post_headers (Simple_post_args r n)))
   \<and> (upstream_targets (handle_one_request SimpleProxyHandler E r) = [] \<longrightarrow>
        without_allow_headers (handle_one_request SimpleProxyHandler E r) =
        without_allow_headers (handle_one_request CORSProxyHandler E r))"
proof (intro conjI impI)
  show "upstream_targets (handle_one_request SimpleProxyHandler E r) =
      upstream_targets (handle_one_request CORSProxyHandler E r)"
    by (simp add: handle_upstream_targets Simple_upstream_targets CORS_upstream_targets)
  show "body_reads (handle_one_request SimpleProxyHandler E r) =
      body_reads (handle_one_request CORSProxyHandler E r)"
    by (simp add: handle_body_reads Simple_body_reads CORS_body_reads)
next
  assume d: "distinct (map (lower \<circ> fst) (headers r))"
  have s: "post_headers (Simple_post_args r n) = filter forwarded (headers r)"
    using assign_all_distinct [of "[]" "filter forwarded (headers r)"]
      distinct_lower_names [OF d]
    by (simp add: post_headers_dict distinct_map_filter)
  have c: "req_headers (CORS_request r n) =
      map (\<lambda>h. (capitalize (fst h), snd h)) (filter forwarded (headers r))"
    using assign_all_distinct
        [of "[]" "map (\<lambda>h. (capitalize (fst h), snd h)) (filter forwarded (headers r))"]
      distinct_capitalized [OF d]
    by (simp add: req_headers_dict)
  from s c show "req_headers (CORS_request r n) =
      map (\<lambda>h. (capitalize (fst h), snd h)) (post_headers (Simple_post_args r n))"
    by simp
next
  assume "upstream_targets (handle_one_request SimpleProxyHandler E r) = []"
  then show "without_allow_headers (handle_one_request SimpleProxyHandler E r) =
      without_allow_headers (handle_one_request CORSProxyHandler E r)"
    by (rule not_forwarded_same)
qed

theorem handlers_agree_witness:
  "distinct (map (lower \<circ> fst) [(''x-dashscope-sse'', ''enable''), (''Host'', ''localhost'')])
   \<and> post_headers (Simple_post_args
        \<lparr>command = ''POST'', path = ''/v1/foo'',
         headers = [(''x-dashscope-sse'', ''enable''), (''Host'', ''localhost'')], rfile = []\<rparr> 0)
       = [(''x-dashscope-sse'', ''enable'')]
   \<and> req_headers (CORS_request
        \<lparr>command = ''POST'', path = ''/v1/foo'',
         headers = [(''x-dashscope-sse'', ''enable''), (''Host'', ''localhost'')], rfile = []\<rparr> 0)
       = [(''X-dashscope-sse'', ''enable'')]
   \<and> upstream_targets (handle_one_request SimpleProxyHandler unreachable
        \<lparr>command = ''POST'', path = ''/v1/foo'',
         headers = [(''x-dashscope-sse'', ''enable''), (''Host'', ''localhost'')], rfile = []\<rparr>) = []
   \<and> without_allow_headers (handle_one_request SimpleProxyHandler unreachable
        \<lparr>command = ''POST'', path = ''/v1/foo'',
         headers = [(''x-dashscope-sse'', ''enable''), (''Host'', ''localhost'')], rfile = []\<rparr>)
     = without_allow_headers (handle_one_request CORSProxyHandler unreachable
        \<lparr>command = ''POST'', path = ''/v1/foo'',
         headers = [(''x-dashscope-sse'', ''enable''), (''Host'', ''localhost'')], rfile = []\<rparr>)"
proof -
  let ?r = "\<lparr>command = ''POST'', path = ''/v1/foo'',
         headers = [(''x-dashscope-sse'', ''enable''), (''Host'', ''localhost'')], rfile = []\<rparr>"
  have l: "lower ''x-dashscope-sse'' = ''x-dashscope-sse''" "lower ''Host'' = ''host''"
    by (simp_all add: lower_eval)
  have d: "distinct (map (lower \<circ> fst) (headers ?r))"
    by (simp add: l)
  have p: "post_headers (Simple_post_args ?r 0) = [(''x-dashscope-sse'', ''enable'')]"
    by (simp add: post_headers_dict forwarded_def request_denylist_def l)
  have u: "upstream_targets (handle_one_request SimpleProxyHandler unreachable ?r) = []"
    by (simp add: handle_upstream_targets Simple_upstream_targets startswith_def)
  note agree = handlers_agree [of unreachable ?r 0]
  from agree d have "req_headers (CORS_request ?r 0) =
      map (\<lambda>h. (capitalize (fst h), snd h)) (post_headers (Simple_post_args ?r 0))"
    by blast
  then have q: "req_headers (CORS_request ?r 0) = [(''X-dashscope-sse'', ''enable'')]"
    by (simp add: p lower_eval)
  from agree u have "without_allow_headers (handle_one_request SimpleProxyHandler unreachable ?r)
      = without_allow_headers (handle_one_request CORSProxyHandler unreachable ?r)"
    by blast
  with d p q u show ?thesis
    by simp
qed

theorem handlers_differ_counterexample:
  "(''Access-Control-Allow-Headers'', ''Content-Type, Authorization, X-DashScope-SSE'')
     \<in> set (response_headers (handle_one_request SimpleProxyHandler unreachable
          \<lparr>command = ''OPTIONS'', path = ''/api/dashscope/v1/chat'', headers = [], rfile = []\<rparr>))
   \<and> (''Access-Control-Allow-Headers'', ''Content-Type, Authorization, X-DashScope-SSE'')
     \<notin> set (response_headers (handle_one_request CORSProxyHandler unreachable
          \<lparr>command = ''OPTIONS'', path = ''/api/dashscope/v1/chat'', headers = [], rfile = []\<rparr>))
   \<and> handle_one_request SimpleProxyHandler unreachable
        \<lparr>command = ''OPTIONS'', path = ''/api/dashscope/v1/chat'', headers = [], rfile = []\<rparr>
     \<noteq> handle_one_request CORSProxyHandler unreachable
        \<lparr>command = ''OPTIONS'', path = ''/api/dashscope/v1/chat'', headers = [], rfile = []\<rparr>"
  by (simp add: handle_one_request_def Simple_do_OPTIONS_def CORS_do_OPTIONS_def
      Simple_send_cors_headers_def CORS_send_cors_headers_def send_response_def
      send_header_def end_headers_def obs_defs)

end
